theory Spec2Isabelle
  imports Main "HOL-Library.Word" "HOL-Library.Sublist"
begin

section \<open>Python values and exception objects\<close>

text \<open>
  The module under verification is \<^verbatim>\<open>trinity/chains/__init__.py\<close>. Its functions
  raise, catch and rebuild Python exception objects, so an exception is a value with the
  attributes the interpreter gives every \<^verbatim>\<open>BaseException\<close>: its class (the name of
  \<^verbatim>\<open>type(e)\<close>), the classes it inherits from (what \<^verbatim>\<open>except C\<close> and
  \<^verbatim>\<open>isinstance\<close> look through), \<^verbatim>\<open>args\<close> (the message), the instance
  \<^verbatim>\<open>__dict__\<close> (payload attributes), \<^verbatim>\<open>__cause__\<close>, \<^verbatim>\<open>__context__\<close>,
  \<^verbatim>\<open>__suppress_context__\<close> and \<^verbatim>\<open>__traceback__\<close>. A traceback is the list of
  its frames; only its formatted text is ever used. What the interpreter records on an
  exception while a \<^verbatim>\<open>raise\<close> statement runs (the frames it adds to
  \<^verbatim>\<open>__traceback__\<close>, the implicit \<^verbatim>\<open>__context__\<close>) is part of the exception
  values that the collaborators hand in; the exceptions constructed here carry none.
\<close>

type_synonym bytes = "8 word list"

type_synonym path = "string list"

type_synonym traceback = "string list"

datatype pyval =
    VNone
  | VBool bool
  | VInt int
  | VStr string
  | VBytes bytes
  | VPath path
  | VException exn
  | VTraceback "traceback option"
and exn =
    Exn (exc_type: string)
        (exc_bases: "string list")
        (exc_args: "pyval list")
        (exc_dict: "(string \<times> pyval) list")
        (exc_cause: "exn option")
        (exc_context: "exn option")
        (exc_suppress_context: bool)
        (exc_traceback: "traceback option")

text \<open>\<^verbatim>\<open>isinstance(e, C)\<close>, which is also the test of \<^verbatim>\<open>except C\<close>.\<close>

definition isinstance :: "exn \<Rightarrow> string \<Rightarrow> bool" where
  "isinstance e c = (exc_type e = c \<or> c \<in> set (exc_bases e))"

text \<open>A freshly constructed exception \<^verbatim>\<open>C(*args)\<close>: no cause, no context, no payload.\<close>

definition new_exception :: "string \<Rightarrow> string list \<Rightarrow> pyval list \<Rightarrow> exn" where
  "new_exception c bs as = Exn c bs as [] None None False None"

definition Exception_bases :: "string list" where
  "Exception_bases = [''Exception'', ''BaseException'', ''object'']"

definition squote :: "string \<Rightarrow> string" where
  "squote s = CHR 0x27 # s @ [CHR 0x27]"

definition ValidationError :: "string \<Rightarrow> exn" where
  "ValidationError msg = new_exception ''ValidationError'' Exception_bases [VStr msg]"

definition KeyError :: "string \<Rightarrow> exn" where
  "KeyError k = new_exception ''KeyError'' (''LookupError'' # Exception_bases) [VStr k]"

definition NameError :: "string \<Rightarrow> exn" where
  "NameError n =
     new_exception ''NameError'' Exception_bases
       [VStr (''name '' @ squote n @ '' is not defined'')]"

section \<open>The names the module binds\<close>

text \<open>
  A function body looks a global name up in the namespace of its module when the line
  runs; a name the module never binds raises \<^verbatim>\<open>NameError\<close> there. These are the
  names bound by the import statements (lines 3 to 63) and by the module's own
  \<^verbatim>\<open>def\<close> and \<^verbatim>\<open>class\<close> statements. Line 20 is \<^verbatim>\<open>import eth.constants\<close>,
  which binds \<^verbatim>\<open>eth\<close>, not \<^verbatim>\<open>constants\<close>; no line imports \<^verbatim>\<open>MissingPath\<close>.
\<close>

definition module_globals :: "string list" where
  "module_globals =
    [''BaseManager'', ''BaseProxy'', ''inspect'', ''json'', ''os'', ''traceback'',
     ''TracebackType'', ''Any'', ''Callable'', ''List'', ''Type'',
     ''MainnetChain'', ''RopstenChain'', ''eth'', ''Chain'', ''BaseChain'',
     ''MAINNET_GENESIS_HEADER'', ''MAINNET_NETWORK_ID'',
     ''ROPSTEN_GENESIS_HEADER'', ''ROPSTEN_NETWORK_ID'',
     ''BaseDB'', ''CanonicalHeadNotFound'', ''BlockHeader'',
     ''decode_hex'', ''ValidationError'', ''ecies'',
     ''ChainConfig'', ''DBProxy'', ''AsyncChainDB'', ''ChainDBProxy'',
     ''AsyncHeaderDB'', ''AsyncHeaderDBProxy'', ''async_method'', ''sync_method'',
     ''is_under_xdg_trinity_root'', ''AsyncHeaderChain'', ''AsyncHeaderChainProxy'',
     ''is_valid_genesis_header'', ''get_genesis_header'', ''is_data_dir_initialized'',
     ''is_database_initialized'', ''initialize_data_dir'', ''initialize_database'',
     ''TracebackRecorder'', ''record_traceback_on_error'', ''BasePrivateChain'',
     ''PrivateChain'', ''RemoteTraceback'', ''ChainedExceptionWithTraceback'',
     ''rebuild_exc'', ''get_chaindb_manager'', ''ChainProxy'']"

section \<open>Genesis configuration\<close>

text \<open>
  The decoded genesis JSON is a dictionary from key names to values. The header is the
  \<^verbatim>\<open>BlockHeader\<close> the function builds, with the keyword arguments it passes.
\<close>

type_synonym genesis = "string \<rightharpoonup> pyval"

record block_header =
  difficulty :: pyval
  extra_data :: pyval
  gas_limit :: pyval
  gas_used :: int
  bloom :: int
  mix_hash :: bytes
  nonce :: pyval
  block_number :: int
  parent_hash :: bytes
  receipt_root :: bytes
  uncles_hash :: bytes
  state_root :: bytes
  timestamp :: int
  transaction_root :: bytes

text \<open>
  The constants of \<^verbatim>\<open>eth.constants\<close> the function reads; that module is not among the
  sources, so their values are parameters.
\<close>

record eth_constants =
  ZERO_HASH32 :: bytes
  BLANK_ROOT_HASH :: bytes
  EMPTY_UNCLE_HASH :: bytes

text \<open>\<^verbatim>\<open>is_valid_genesis_header\<close>, lines 66 to 83: five membership tests in this order.\<close>

definition is_valid_genesis_header :: "genesis \<Rightarrow> exn + bool" where
  "is_valid_genesis_header genesis =
    (if genesis ''chainId'' = None then
       Inl (ValidationError (''genesis config missing required '' @ squote ''chainId''))
     else if genesis ''difficulty'' = None then
       Inl (ValidationError (''genesis config missing required '' @ squote ''difficulty''))
     else if genesis ''gasLimit'' = None then
       Inl (ValidationError (''genesis config missing required '' @ squote ''gasLimit''))
     else if genesis ''nonce'' = None then
       Inl (ValidationError (''genesis config missing required '' @ squote ''nonce''))
     else if genesis ''extraData'' = None then
       Inl (ValidationError (''genesis config missing required '' @ squote ''extraData''))
     else Inr True)"

text \<open>
  \<^verbatim>\<open>get_genesis_header\<close>, lines 86 to 106. Python evaluates the keyword arguments of
  the call from left to right, so the subscripts \<^verbatim>\<open>genesis['difficulty']\<close>,
  \<^verbatim>\<open>genesis['extraData']\<close> and \<^verbatim>\<open>genesis['gasLimit']\<close> come first (each a
  \<^verbatim>\<open>KeyError\<close> on a missing key), then the global name \<^verbatim>\<open>constants\<close> is looked up
  in the namespace \<open>g\<close> of the module for \<^verbatim>\<open>mix_hash\<close>, then
  \<^verbatim>\<open>genesis['nonce']\<close>, the remaining constants, and \<^verbatim>\<open>decode_hex\<close> of the state
  root literal; the second component of the tuple, \<^verbatim>\<open>decode_hex(genesis['chainId'])\<close>,
  is evaluated last. \<^verbatim>\<open>decode_hex\<close> is \<^verbatim>\<open>eth_utils\<close>' and a parameter.
\<close>

definition state_root_literal :: string where
  "state_root_literal =
     ''0xd7f8974fb5ac78d9ac099b9ad5018bedc2ce0a72dad1827a1709da30580f0544''"

definition get_genesis_header ::
  "string list \<Rightarrow> eth_constants \<Rightarrow> (pyval \<Rightarrow> exn + bytes) \<Rightarrow> genesis
     \<Rightarrow> exn + (block_header \<times> bytes)" where
  "get_genesis_header g consts decode_hex genesis =
    (case genesis ''difficulty'' of
       None \<Rightarrow> Inl (KeyError ''difficulty'')
     | Some d \<Rightarrow>
    (case genesis ''extraData'' of
       None \<Rightarrow> Inl (KeyError ''extraData'')
     | Some x \<Rightarrow>
    (case genesis ''gasLimit'' of
       None \<Rightarrow> Inl (KeyError ''gasLimit'')
     | Some l \<Rightarrow>
    (if ''constants'' \<notin> set g then Inl (NameError ''constants'')
     else
    (case genesis ''nonce'' of
       None \<Rightarrow> Inl (KeyError ''nonce'')
     | Some n \<Rightarrow>
    (case decode_hex (VStr state_root_literal) of
       Inl e \<Rightarrow> Inl e
     | Inr root \<Rightarrow>
    (case genesis ''chainId'' of
       None \<Rightarrow> Inl (KeyError ''chainId'')
     | Some c \<Rightarrow>
    (case decode_hex c of
       Inl e \<Rightarrow> Inl e
     | Inr network \<Rightarrow>
         Inr (\<lparr> difficulty = d,
                extra_data = x,
                gas_limit = l,
                gas_used = 0,
                bloom = 0,
                mix_hash = ZERO_HASH32 consts,
                nonce = n,
                block_number = 0,
                parent_hash = ZERO_HASH32 consts,
                receipt_root = BLANK_ROOT_HASH consts,
                uncles_hash = EMPTY_UNCLE_HASH consts,
                state_root = root,
                timestamp = 0,
                transaction_root = BLANK_ROOT_HASH consts \<rparr>,
              network)))))))))"

section \<open>The data directory\<close>

text \<open>
  The file system the bootstrap works on: the set of existing directories and the
  regular files with their contents, paths being lists of components below the root.
  \<^verbatim>\<open>ecies.generate_privkey()\<close> draws a fresh key from the system's randomness; the
  world counts the draws, and the \<open>n\<close>-th key drawn is \<open>gen n\<close> for a parameter
  \<open>gen\<close>. Permissions and device errors are outside the model; the failures that
  depend on which paths exist are in it.
\<close>

datatype privkey = PrivateKey (to_bytes: bytes)

record world =
  dirs :: "path set"
  files :: "path \<rightharpoonup> bytes"
  privkeys_generated :: nat

text \<open>
  Modelled from the spec: \<^verbatim>\<open>ChainConfig\<close> of \<^verbatim>\<open>trinity.config\<close> is not among the
  sources. The spec's NodeFilesystemLayout has baseDataDir, databaseDir, logDir, logFile,
  an optional nodekeyPath and the loaded nodekey value; its network identity carries a
  numeric id and, when private, the custom genesis header. Each is the attribute the
  functions read (\<^verbatim>\<open>genesis_header\<close> is read by a call).
\<close>

record chain_config =
  data_dir :: path
  database_dir :: path
  logdir_path :: path
  logfile_path :: path
  nodekey_path :: "path option"
  nodekey :: "privkey option"
  network_id :: int
  genesis_header :: block_header

text \<open>An outcome of a step: the exception it raised, if any, and the world it left.\<close>

type_synonym outcome = "exn option \<times> world"

definition and_then :: "outcome \<Rightarrow> (world \<Rightarrow> outcome) \<Rightarrow> outcome" where
  "and_then r f = (case r of (None, w) \<Rightarrow> f w | (Some e, w) \<Rightarrow> (Some e, w))"

definition path_str :: "path \<Rightarrow> string" where
  "path_str p = (if p = [] then ''/'' else concat (map (\<lambda>c. CHR ''/'' # c) p))"

definition backquote :: "string \<Rightarrow> string" where
  "backquote s = CHR 0x60 # s @ [CHR 0x60]"

definition os_error :: "string \<Rightarrow> path \<Rightarrow> exn" where
  "os_error c p =
     new_exception c (''OSError'' # Exception_bases) [VStr (path_str p)]"

definition TypeError :: "string \<Rightarrow> exn" where
  "TypeError msg = new_exception ''TypeError'' Exception_bases [VStr msg]"

definition AttributeError :: "string \<Rightarrow> exn" where
  "AttributeError n = new_exception ''AttributeError'' Exception_bases [VStr n]"

text \<open>\<^verbatim>\<open>Path.exists()\<close> and \<^verbatim>\<open>os.path.exists\<close>: a directory or a regular file.\<close>

definition path_exists :: "world \<Rightarrow> path \<Rightarrow> bool" where
  "path_exists w p = (p \<in> dirs w \<or> p \<in> dom (files w))"

text \<open>
  \<^verbatim>\<open>Path.mkdir(parents=True, exist_ok=True)\<close> and \<^verbatim>\<open>os.makedirs(p, exist_ok=True)\<close>:
  the directory and every missing ancestor are created; an existing directory is left
  alone; a regular file at the path or at an ancestor is an error.
\<close>

definition mkdir_parents :: "path \<Rightarrow> world \<Rightarrow> outcome" where
  "mkdir_parents p w =
    (if p \<in> dom (files w) then (Some (os_error ''FileExistsError'' p), w)
     else if list_ex (\<lambda>q. q \<in> dom (files w)) (prefixes p) then
       (Some (os_error ''NotADirectoryError'' p), w)
     else (None, w\<lparr>dirs := dirs w \<union> set (prefixes p)\<rparr>))"

text \<open>
  \<^verbatim>\<open>Path.touch()\<close>: an existing path keeps its contents; otherwise an empty file is
  created, which needs the parent directory.
\<close>

definition touch :: "path \<Rightarrow> world \<Rightarrow> outcome" where
  "touch p w =
    (if path_exists w p then (None, w)
     else if butlast p \<in> dirs w then (None, w\<lparr>files := (files w)(p \<mapsto> [])\<rparr>)
     else (Some (os_error ''FileNotFoundError'' p), w))"

text \<open>
  \<^verbatim>\<open>with open(p, 'wb') as f: f.write(data)\<close>: \<^verbatim>\<open>open(None, 'wb')\<close> is a
  \<^verbatim>\<open>TypeError\<close>; a directory cannot be opened for writing; the parent directory must
  exist; otherwise the file is created or truncated and holds exactly \<open>data\<close>.
\<close>

definition open_wb_write :: "path option \<Rightarrow> bytes \<Rightarrow> world \<Rightarrow> outcome" where
  "open_wb_write po content w =
    (case po of
       None \<Rightarrow>
         (Some (TypeError ''expected str, bytes or os.PathLike object, not NoneType''), w)
     | Some p \<Rightarrow>
         if p \<in> dirs w then (Some (os_error ''IsADirectoryError'' p), w)
         else if butlast p \<in> dirs w then (None, w\<lparr>files := (files w)(p \<mapsto> content)\<rparr>)
         else (Some (os_error ''FileNotFoundError'' p), w))"

definition generate_privkey :: "(nat \<Rightarrow> privkey) \<Rightarrow> world \<Rightarrow> privkey \<times> world" where
  "generate_privkey gen w =
     (gen (privkeys_generated w), w\<lparr>privkeys_generated := Suc (privkeys_generated w)\<rparr>)"

text \<open>
  Modelled from the spec: the exception class \<^verbatim>\<open>MissingPath\<close> is not among the sources
  (and not among the names the module binds); the spec's MissingPathError names the path
  of the required directory that is absent. The object holds the two arguments of the
  call: the message and the path.
\<close>

definition MissingPath :: "string \<Rightarrow> path \<Rightarrow> exn" where
  "MissingPath msg p =
     new_exception ''MissingPath'' (''BaseTrinityError'' # Exception_bases) [VStr msg, VPath p]"

text \<open>
  \<^verbatim>\<open>raise MissingPath(msg, p)\<close> evaluated in a module namespace \<open>g\<close>: the name is
  looked up first.
\<close>

definition raise_MissingPath :: "string list \<Rightarrow> string \<Rightarrow> path \<Rightarrow> exn" where
  "raise_MissingPath g msg p =
    (if ''MissingPath'' \<in> set g then MissingPath (msg @ backquote (path_str p)) p
     else NameError ''MissingPath'')"

text \<open>\<^verbatim>\<open>is_data_dir_initialized\<close>, lines 109 to 136.\<close>

definition is_data_dir_initialized :: "chain_config \<Rightarrow> world \<Rightarrow> bool" where
  "is_data_dir_initialized cfg w =
    (if \<not> path_exists w (data_dir cfg) then False
     else if \<not> path_exists w (database_dir cfg) then False
     else if \<not> path_exists w (butlast (logfile_path cfg)) then False
     else if \<not> path_exists w (logfile_path cfg) then False
     else if (case nodekey_path cfg of None \<Rightarrow> False | Some p \<Rightarrow> \<not> path_exists w p)
       then False
     else if nodekey cfg = None then False
     else True)"

text \<open>
  \<^verbatim>\<open>initialize_data_dir\<close>, lines 149 to 183, statement by statement: the base
  directory, the log directory and log file, the database directory, the nodekey.
  \<open>g\<close> is the namespace of the module, \<open>xdg\<close> is
  \<^verbatim>\<open>is_under_xdg_trinity_root\<close> (of \<^verbatim>\<open>trinity.utils.xdg\<close>, a parameter).
\<close>

definition initialize_data_dir ::
  "string list \<Rightarrow> (path \<Rightarrow> bool) \<Rightarrow> (nat \<Rightarrow> privkey) \<Rightarrow> chain_config \<Rightarrow> world
     \<Rightarrow> outcome" where
  "initialize_data_dir g xdg gen cfg w0 =
    and_then
      (if \<not> path_exists w0 (data_dir cfg) \<and> xdg (data_dir cfg) then
         mkdir_parents (data_dir cfg) w0
       else if \<not> path_exists w0 (data_dir cfg) then
         (Some (raise_MissingPath g
            ''The base chain directory provided does not exist: '' (data_dir cfg)), w0)
       else (None, w0))
    (\<lambda>w1. and_then
      (if \<not> path_exists w1 (logdir_path cfg) \<and> xdg (logdir_path cfg) then
         and_then (mkdir_parents (logdir_path cfg) w1) (touch (logfile_path cfg))
       else if \<not> path_exists w1 (logdir_path cfg) then
         (Some (raise_MissingPath g
            ''The base logging directory provided does not exist: '' (logdir_path cfg)), w1)
       else (None, w1))
    (\<lambda>w2. and_then
      (mkdir_parents (database_dir cfg) w2)
    (\<lambda>w3.
      if nodekey cfg = None then
        (case generate_privkey gen w3 of
           (key, w4) \<Rightarrow> open_wb_write (nodekey_path cfg) (to_bytes key) w4)
      else (None, w3))))"

text \<open>
  The statements of \<^verbatim>\<open>initialize_data_dir\<close> before the nodekey, lines 150 to 177,
  as one step; \<open>initialize_data_dir_steps\<close> below shows the function is this step
  followed by the nodekey statement.
\<close>

definition ensure_directories ::
  "string list \<Rightarrow> (path \<Rightarrow> bool) \<Rightarrow> chain_config \<Rightarrow> world \<Rightarrow> outcome" where
  "ensure_directories g xdg cfg w0 =
    and_then
      (if \<not> path_exists w0 (data_dir cfg) \<and> xdg (data_dir cfg) then
         mkdir_parents (data_dir cfg) w0
       else if \<not> path_exists w0 (data_dir cfg) then
         (Some (raise_MissingPath g
            ''The base chain directory provided does not exist: '' (data_dir cfg)), w0)
       else (None, w0))
    (\<lambda>w1. and_then
      (if \<not> path_exists w1 (logdir_path cfg) \<and> xdg (logdir_path cfg) then
         and_then (mkdir_parents (logdir_path cfg) w1) (touch (logfile_path cfg))
       else if \<not> path_exists w1 (logdir_path cfg) then
         (Some (raise_MissingPath g
            ''The base logging directory provided does not exist: '' (logdir_path cfg)), w1)
       else (None, w1))
    (\<lambda>w2. mkdir_parents (database_dir cfg) w2))"

text \<open>
  A step keeps what the world held when no key is drawn and every regular file that
  existed still has its bytes.
\<close>

definition keeps :: "world \<Rightarrow> world \<Rightarrow> bool" where
  "keeps w w' =
    (privkeys_generated w' = privkeys_generated w \<and>
     (\<forall>q. q \<in> dom (files w) \<longrightarrow> files w' q = files w q))"

section \<open>The chain database\<close>

text \<open>
  The chain database is a collaborator: \<open>get_canonical_head\<close> reads the canonical
  head of a database state or raises, \<open>persist_header\<close> stores a header and gives
  the new state or raises. Both are parameters, as are the constants imported from
  \<^verbatim>\<open>eth.chains.mainnet\<close> and \<^verbatim>\<open>eth.chains.ropsten\<close>.
\<close>

record chain_constants =
  MAINNET_GENESIS_HEADER :: block_header
  MAINNET_NETWORK_ID :: int
  ROPSTEN_GENESIS_HEADER :: block_header
  ROPSTEN_NETWORK_ID :: int

text \<open>\<^verbatim>\<open>is_database_initialized\<close>, lines 139 to 146.\<close>

definition is_database_initialized :: "('db \<Rightarrow> exn + block_header) \<Rightarrow> 'db \<Rightarrow> exn + bool" where
  "is_database_initialized get_canonical_head chaindb =
    (case get_canonical_head chaindb of
       Inl e \<Rightarrow> if isinstance e ''CanonicalHeadNotFound'' then Inr False else Inl e
     | Inr h \<Rightarrow> Inr True)"

text \<open>
  \<^verbatim>\<open>initialize_database\<close>, lines 186 to 196: the result is the state of the
  database the call leaves, or the exception that leaves the function.
\<close>

definition initialize_database ::
  "chain_constants \<Rightarrow> ('db \<Rightarrow> exn + block_header) \<Rightarrow> (block_header \<Rightarrow> 'db \<Rightarrow> exn + 'db)
     \<Rightarrow> chain_config \<Rightarrow> 'db \<Rightarrow> exn + 'db" where
  "initialize_database k get_canonical_head persist_header cfg chaindb =
    (case get_canonical_head chaindb of
       Inl e \<Rightarrow>
         if isinstance e ''CanonicalHeadNotFound'' then
           (if network_id cfg = ROPSTEN_NETWORK_ID k then
              persist_header (ROPSTEN_GENESIS_HEADER k) chaindb
            else if network_id cfg = MAINNET_NETWORK_ID k then
              persist_header (MAINNET_GENESIS_HEADER k) chaindb
            else persist_header (genesis_header cfg) chaindb)
         else Inl e
     | Inr h \<Rightarrow> Inr chaindb)"

section \<open>Forwarding exceptions across the process boundary\<close>

text \<open>
  An attribute of a hosted object is a plain value, a bound method (what
  \<^verbatim>\<open>inspect.ismethod\<close> recognises) or some other callable (a function stored on the
  instance, a built-in method, a callable object). A call takes the positional and the
  keyword arguments and the state \<open>'s\<close> of the hosting process, and returns a value or
  raises, leaving a new state.
\<close>

type_synonym call_args = "pyval list \<times> (string \<times> pyval) list"

type_synonym 's behaviour = "call_args \<Rightarrow> 's \<Rightarrow> (exn + pyval) \<times> 's"

datatype 's attr =
    Attribute pyval
  | BoundMethod "'s behaviour"
  | OtherCallable "'s behaviour"

definition inspect_ismethod :: "'s attr \<Rightarrow> bool" where
  "inspect_ismethod a = (case a of BoundMethod f \<Rightarrow> True | _ \<Rightarrow> False)"

definition callable :: "'s attr \<Rightarrow> bool" where
  "callable a = (case a of Attribute v \<Rightarrow> False | _ \<Rightarrow> True)"

text \<open>\<^verbatim>\<open>attr(*args, **kwargs)\<close>.\<close>

definition call_attr :: "'s attr \<Rightarrow> 's behaviour" where
  "call_attr a args s =
    (case a of
       Attribute v \<Rightarrow> (Inl (TypeError ''object is not callable''), s)
     | BoundMethod f \<Rightarrow> f args s
     | OtherCallable f \<Rightarrow> f args s)"

text \<open>
  The text a \<^verbatim>\<open>ChainedExceptionWithTraceback\<close> stores, line 254:
  \<^verbatim>\<open>'\n"""\n%s"""' % ''.join(traceback.format_exception(type(exc), exc, tb))\<close>.
  \<^verbatim>\<open>traceback.format_exception\<close> is the standard library's and a parameter \<open>fmt\<close>
  giving the list of lines.
\<close>

definition triple_quote :: string where
  "triple_quote = [CHR 0x22, CHR 0x22, CHR 0x22]"

definition remote_tb_text :: "string list \<Rightarrow> string" where
  "remote_tb_text ls = CHR 0x0A # triple_quote @ CHR 0x0A # concat ls @ triple_quote"

text \<open>
  \<^verbatim>\<open>ChainedExceptionWithTraceback(exc, tb)\<close>, lines 251 to 255: \<^verbatim>\<open>args\<close> are the
  constructor's arguments, the instance dictionary gets \<^verbatim>\<open>tb\<close> and then
  \<^verbatim>\<open>exc\<close>.
\<close>

definition ChainedExceptionWithTraceback ::
  "(exn \<Rightarrow> traceback option \<Rightarrow> string list) \<Rightarrow> exn \<Rightarrow> traceback option \<Rightarrow> exn" where
  "ChainedExceptionWithTraceback fmt exc tb =
     Exn ''ChainedExceptionWithTraceback'' Exception_bases
       [VException exc, VTraceback tb]
       [(''tb'', VStr (remote_tb_text (fmt exc tb))), (''exc'', VException exc)]
       None None False None"

text \<open>
  \<^verbatim>\<open>record_traceback_on_error\<close>, lines 221 to 231: the wrapper calls the attribute;
  \<^verbatim>\<open>except Exception\<close> catches the instances of \<^verbatim>\<open>Exception\<close> only.
\<close>

definition record_traceback_on_error ::
  "(exn \<Rightarrow> traceback option \<Rightarrow> string list) \<Rightarrow> 's attr \<Rightarrow> 's behaviour" where
  "record_traceback_on_error fmt a args s =
    (case call_attr a args s of
       (Inr v, s') \<Rightarrow> (Inr v, s')
     | (Inl e, s') \<Rightarrow>
         if isinstance e ''Exception'' then
           (Inl (ChainedExceptionWithTraceback fmt e (exc_traceback e)), s')
         else (Inl e, s'))"

text \<open>
  \<^verbatim>\<open>TracebackRecorder.__getattr__\<close>, lines 212 to 217, on the wrapped object \<open>obj\<close>
  (its attributes by name); Python calls it for the names the recorder does not define
  itself. The wrapper returned for a method is a plain function.
\<close>

definition TracebackRecorder_getattr ::
  "(exn \<Rightarrow> traceback option \<Rightarrow> string list) \<Rightarrow> (string \<rightharpoonup> 's attr) \<Rightarrow> string
     \<Rightarrow> exn + 's attr" where
  "TracebackRecorder_getattr fmt obj name =
    (case obj name of
       None \<Rightarrow> Inl (AttributeError name)
     | Some a \<Rightarrow>
         if \<not> inspect_ismethod a then Inr a
         else Inr (OtherCallable (record_traceback_on_error fmt a)))"

text \<open>
  \<^verbatim>\<open>RemoteTraceback(tb)\<close>, lines 242 to 248, and its \<^verbatim>\<open>__str__\<close>, which returns
  the attribute \<^verbatim>\<open>tb\<close>.
\<close>

definition RemoteTraceback :: "string \<Rightarrow> exn" where
  "RemoteTraceback tb =
     Exn ''RemoteTraceback'' Exception_bases [VStr tb] [(''tb'', VStr tb)]
       None None False None"


text \<open>
  The assignment \<^verbatim>\<open>exc.__cause__ = v\<close>. The Python reference (Built-in Exceptions,
  exception context): setting \<^verbatim>\<open>__cause__\<close> also implicitly sets the
  \<^verbatim>\<open>__suppress_context__\<close> attribute to \<^verbatim>\<open>True\<close>.
\<close>

definition assign_cause :: "exn \<Rightarrow> exn \<Rightarrow> exn" where
  "assign_cause exc v =
     Exn (exc_type exc) (exc_bases exc) (exc_args exc) (exc_dict exc)
       (Some v) (exc_context exc) True (exc_traceback exc)"

text \<open>\<^verbatim>\<open>rebuild_exc\<close>, lines 261 to 263: the object it is given, after the assignment.\<close>

definition rebuild_exc :: "exn \<Rightarrow> string \<Rightarrow> exn" where
  "rebuild_exc exc tb = assign_cause exc (RemoteTraceback tb)"

text \<open>
  The same function on a store of objects, where its argument is a reference: the
  object at the reference is updated in place and the reference is returned.
\<close>

type_synonym heap = "nat \<rightharpoonup> exn"

definition rebuild_exc_ref :: "heap \<Rightarrow> nat \<Rightarrow> string \<Rightarrow> (heap \<times> nat) option" where
  "rebuild_exc_ref h r tb =
    (case h r of
       None \<Rightarrow> None
     | Some exc \<Rightarrow> Some (h(r \<mapsto> rebuild_exc exc tb), r))"

text \<open>
  \<^verbatim>\<open>ChainedExceptionWithTraceback.__reduce__\<close>, lines 257 to 258: the arguments
  \<^verbatim>\<open>(self.exc, self.tb)\<close> that \<^verbatim>\<open>rebuild_exc\<close> is to be called with.
\<close>

definition ChainedExceptionWithTraceback_reduce :: "exn \<Rightarrow> exn + (exn \<times> string)" where
  "ChainedExceptionWithTraceback_reduce c =
    (case map_of (exc_dict c) ''exc'' of
       Some (VException e) \<Rightarrow>
         (case map_of (exc_dict c) ''tb'' of
            Some (VStr t) \<Rightarrow> Inr (e, t)
          | _ \<Rightarrow> Inl (AttributeError ''tb''))
     | _ \<Rightarrow> Inl (AttributeError ''exc''))"

text \<open>
  Serializing an exception object and deserializing it on the receiving side,
  \<^verbatim>\<open>pickle.loads(pickle.dumps(e))\<close>. What \<^verbatim>\<open>pickle\<close> does with an object depends on
  its class. An instance of \<^verbatim>\<open>ChainedExceptionWithTraceback\<close> is reduced by the
  \<^verbatim>\<open>__reduce__\<close> of lines 257 to 258: the function \<^verbatim>\<open>rebuild_exc\<close> travels by
  reference, its two arguments are pickled in turn (the embedded exception by the same
  rules, the string unchanged), and the receiver calls \<^verbatim>\<open>rebuild_exc\<close> on the
  arguments it unpickled; a failure on the way is the outcome. For an exception of any
  other class the outcome is what that class and \<^verbatim>\<open>pickle\<close> make of it: the parameter
  \<open>foreign\<close>, which gives the copy that arrives or the exception the round trip raises
  (a class whose constructor does not accept its \<^verbatim>\<open>args\<close> fails on load with a
  \<^verbatim>\<open>TypeError\<close>).
\<close>

function loads_dumps :: "(exn \<Rightarrow> exn + exn) \<Rightarrow> exn \<Rightarrow> exn + exn" where
  "loads_dumps foreign e =
    (if isinstance e ''ChainedExceptionWithTraceback'' then
       (case ChainedExceptionWithTraceback_reduce e of
          Inl err \<Rightarrow> Inl err
        | Inr (exc, tb) \<Rightarrow>
            (case loads_dumps foreign exc of
               Inl err \<Rightarrow> Inl err
             | Inr exc' \<Rightarrow> Inr (rebuild_exc exc' tb)))
     else foreign e)"
  by pat_completeness auto
termination
proof (relation "measure (\<lambda>(foreign, e). size e)")
  show "wf (measure (\<lambda>(foreign, e). size e))"
    by simp
next
  fix foreign :: "exn \<Rightarrow> exn + exn" and e x exc tb
  assume r: "ChainedExceptionWithTraceback_reduce e = Inr x" and x: "(exc, tb) = x"
  have entry: "size v < Suc (size_list (size_prod (\<lambda>k. 0) size) d)"
    if "map_of d k = Some v" for d :: "(string \<times> pyval) list" and k v
    using that by (induction d) (auto split: if_splits)
  from r x have "map_of (exc_dict e) ''exc'' = Some (VException exc)"
    by (auto simp: ChainedExceptionWithTraceback_reduce_def split: option.splits pyval.splits)
  from entry [OF this] have "size exc < size e"
    by (cases e) simp
  then show "((foreign, exc), (foreign, e)) \<in> measure (\<lambda>(foreign, e). size e)"
    by simp
qed

declare loads_dumps.simps [simp del]

text \<open>
  Reading an attribute through the adapter, \<^verbatim>\<open>recorder.name\<close>. Python looks the name
  up on the recorder first (its instance dictionary, its class, \<^verbatim>\<open>object\<close>) and calls
  \<^verbatim>\<open>__getattr__\<close> only when that fails. \<open>own\<close> lists the names that the ordinary
  lookup finds; for those the read gives the recorder's own attribute.
\<close>

datatype 's lookup =
    OwnAttribute string
  | Delegated "'s attr"

definition read_attribute ::
  "string list \<Rightarrow> (exn \<Rightarrow> traceback option \<Rightarrow> string list) \<Rightarrow> (string \<rightharpoonup> 's attr) \<Rightarrow> string
     \<Rightarrow> exn + 's lookup" where
  "read_attribute own fmt obj name =
    (if name \<in> set own then Inr (OwnAttribute name)
     else
       (case TracebackRecorder_getattr fmt obj name of
          Inl e \<Rightarrow> Inl e
        | Inr a \<Rightarrow> Inr (Delegated a)))"

text \<open>
  The names found on a \<^verbatim>\<open>TracebackRecorder\<close> without \<^verbatim>\<open>__getattr__\<close>: the instance
  attribute \<^verbatim>\<open>obj\<close> set at line 207, what the class statement of lines 199 to 217
  defines, and what every instance of \<^verbatim>\<open>object\<close> has.
\<close>

definition recorder_own_names :: "string list" where
  "recorder_own_names =
    [''obj'', ''__init__'', ''__dir__'', ''__getattr__'', ''__module__'', ''__doc__'',
     ''__dict__'', ''__weakref__'', ''__class__'', ''__delattr__'', ''__eq__'',
     ''__format__'', ''__ge__'', ''__getattribute__'', ''__gt__'', ''__hash__'',
     ''__init_subclass__'', ''__le__'', ''__lt__'', ''__ne__'', ''__new__'', ''__reduce__'',
     ''__reduce_ex__'', ''__repr__'', ''__setattr__'', ''__sizeof__'', ''__str__'',
     ''__subclasshook__'']"

section \<open>Concrete instances\<close>

text \<open>
  A small chain database to run the initializer on: the headers persisted so far, the
  newest first. Reading the canonical head of the empty database raises
  \<^verbatim>\<open>CanonicalHeadNotFound\<close> (of \<^verbatim>\<open>eth.exceptions\<close>); persisting never raises.
\<close>

definition CanonicalHeadNotFound :: "string \<Rightarrow> exn" where
  "CanonicalHeadNotFound msg =
     new_exception ''CanonicalHeadNotFound'' (''PyEVMError'' # Exception_bases) [VStr msg]"

definition list_get_canonical_head :: "block_header list \<Rightarrow> exn + block_header" where
  "list_get_canonical_head db =
    (case db of
       [] \<Rightarrow> Inl (CanonicalHeadNotFound ''No canonical head set for this chain'')
     | h # hs \<Rightarrow> Inr h)"

definition list_persist_header :: "block_header \<Rightarrow> block_header list \<Rightarrow> exn + block_header list" where
  "list_persist_header h db = Inr (h # db)"

definition example_header :: "int \<Rightarrow> block_header" where
  "example_header n =
     \<lparr> difficulty = VInt n, extra_data = VBytes [], gas_limit = VInt 5000, gas_used = 0,
       bloom = 0, mix_hash = [], nonce = VBytes [], block_number = 0, parent_hash = [],
       receipt_root = [], uncles_hash = [], state_root = [], timestamp = 0,
       transaction_root = [] \<rparr>"

definition example_constants :: chain_constants where
  "example_constants =
     \<lparr> MAINNET_GENESIS_HEADER = example_header 17179869184, MAINNET_NETWORK_ID = 1,
       ROPSTEN_GENESIS_HEADER = example_header 1048576, ROPSTEN_NETWORK_ID = 3 \<rparr>"

text \<open>
  A layout below \<^verbatim>\<open>/data\<close> for the network \<open>n\<close>, with the nodekey path and the
  loaded nodekey given.
\<close>

definition example_config :: "int \<Rightarrow> path option \<Rightarrow> privkey option \<Rightarrow> chain_config" where
  "example_config n kp k =
     \<lparr> data_dir = [''data''], database_dir = [''data'', ''database''],
       logdir_path = [''data'', ''logs''], logfile_path = [''data'', ''logs'', ''trinity.log''],
       nodekey_path = kp, nodekey = k, network_id = n, genesis_header = example_header 42 \<rparr>"

definition example_genesis :: genesis where
  "example_genesis =
     [''chainId'' \<mapsto> VStr ''0x01'', ''difficulty'' \<mapsto> VInt 1024,
      ''gasLimit'' \<mapsto> VInt 5000, ''nonce'' \<mapsto> VStr ''0x0000000000000042'',
      ''extraData'' \<mapsto> VStr ''0x'']"

text \<open>Worlds: nothing but the root, and the layout with its log file missing.\<close>

definition fresh_world :: world where
  "fresh_world = \<lparr> dirs = {[]}, files = Map.empty, privkeys_generated = 0 \<rparr>"

definition logdir_only_world :: world where
  "logdir_only_world =
     \<lparr> dirs = {[], [''data''], [''data'', ''logs'']}, files = Map.empty,
       privkeys_generated = 0 \<rparr>"

definition example_key :: privkey where
  "example_key = PrivateKey [1, 2, 3]"

definition example_gen :: "nat \<Rightarrow> privkey" where
  "example_gen n = PrivateKey [of_nat n, 7]"

text \<open>
  A decoder to run \<^verbatim>\<open>get_genesis_header\<close> with, after \<^verbatim>\<open>eth_utils.decode_hex\<close>:
  the value must be a string, an optional \<^verbatim>\<open>0x\<close> prefix is removed, and the rest is
  read two hexadecimal digits to the byte.
\<close>

definition hex_digit :: "char \<Rightarrow> nat option" where
  "hex_digit c =
    (let n = (of_char c :: nat) in
     if 48 \<le> n \<and> n \<le> 57 then Some (n - 48)
     else if 97 \<le> n \<and> n \<le> 102 then Some (n - 87)
     else if 65 \<le> n \<and> n \<le> 70 then Some (n - 55)
     else None)"

fun unhexlify :: "string \<Rightarrow> bytes option" where
  "unhexlify [] = Some []"
| "unhexlify [c] = None"
| "unhexlify (a # b # cs) =
    (case hex_digit a of
       None \<Rightarrow> None
     | Some x \<Rightarrow>
    (case hex_digit b of
       None \<Rightarrow> None
     | Some y \<Rightarrow>
    (case unhexlify cs of
       None \<Rightarrow> None
     | Some r \<Rightarrow> Some (of_nat (16 * x + y) # r))))"

definition remove_0x_prefix :: "string \<Rightarrow> string" where
  "remove_0x_prefix s = (if take 2 s = ''0x'' \<or> take 2 s = ''0X'' then drop 2 s else s)"

definition example_decode_hex :: "pyval \<Rightarrow> exn + bytes" where
  "example_decode_hex v =
    (case v of
       VStr s \<Rightarrow>
         (case unhexlify (remove_0x_prefix s) of
            None \<Rightarrow>
              Inl (new_exception ''Error'' (''ValueError'' # Exception_bases)
                     [VStr ''Non-hexadecimal digit found''])
          | Some b \<Rightarrow> Inr b)
     | _ \<Rightarrow> Inl (TypeError ''Value must be an instance of str''))"

definition example_eth_constants :: eth_constants where
  "example_eth_constants =
     \<lparr> ZERO_HASH32 = replicate 32 0, BLANK_ROOT_HASH = [86, 232], EMPTY_UNCLE_HASH = [29, 204] \<rparr>"

text \<open>A resource whose attribute \<^verbatim>\<open>get\<close> is a callable that always raises.\<close>

definition example_failing :: "unit behaviour" where
  "example_failing args s = (Inl (KeyError ''missing''), s)"

definition example_fmt :: "exn \<Rightarrow> traceback option \<Rightarrow> string list" where
  "example_fmt e tb = [exc_type e]"

definition example_resource :: "unit attr \<Rightarrow> (string \<rightharpoonup> unit attr)" where
  "example_resource a = [''get'' \<mapsto> a, ''name'' \<mapsto> Attribute (VStr ''db'')]"




text \<open>
  A round trip to run the forwarder with. A class that keeps
  \<^verbatim>\<open>BaseException.__reduce__\<close> and whose constructor accepts its \<^verbatim>\<open>args\<close> arrives
  as \<^verbatim>\<open>cls(*args)\<close> with its instance dictionary, and without \<^verbatim>\<open>__cause__\<close>,
  \<^verbatim>\<open>__context__\<close> and \<^verbatim>\<open>__traceback__\<close>, which are not pickled;
  \<^verbatim>\<open>DeserializationError(*args)\<close> lacks its second argument and raises.
\<close>

definition example_foreign :: "exn \<Rightarrow> exn + exn" where
  "example_foreign e =
    (if exc_type e = ''DeserializationError'' then
       Inl (TypeError (''__init__() missing 1 required positional argument: '' @
              squote ''serial''))
     else Inr (Exn (exc_type e) (exc_bases e) (exc_args e) (exc_dict e)
                 None None False None))"

section \<open>Auxiliary facts\<close>

lemma constants_unbound: "''constants'' \<notin> set module_globals"
  by (simp add: module_globals_def)

lemma MissingPath_unbound: "''MissingPath'' \<notin> set module_globals"
  by (simp add: module_globals_def)

text \<open>Every other global name the modelled functions look up is bound.\<close>

lemma names_bound:
  "set [''ValidationError'', ''BlockHeader'', ''decode_hex'', ''os'', ''ecies'',
        ''is_under_xdg_trinity_root'', ''CanonicalHeadNotFound'',
        ''ROPSTEN_NETWORK_ID'', ''ROPSTEN_GENESIS_HEADER'',
        ''MAINNET_NETWORK_ID'', ''MAINNET_GENESIS_HEADER'',
        ''inspect'', ''traceback'', ''record_traceback_on_error'',
        ''ChainedExceptionWithTraceback'', ''RemoteTraceback'', ''rebuild_exc'']
     \<subseteq> set module_globals"
  by (simp add: module_globals_def)

lemma isinstance_CanonicalHeadNotFound:
  "isinstance (CanonicalHeadNotFound msg) ''CanonicalHeadNotFound''"
  by (simp add: isinstance_def CanonicalHeadNotFound_def new_exception_def)

lemma NameError_not_MissingPath: "\<not> isinstance (NameError n) ''MissingPath''"
  by (simp add: isinstance_def NameError_def new_exception_def Exception_bases_def)

lemma and_then_assoc:
  "and_then (and_then r f) h = and_then r (\<lambda>w. and_then (f w) h)"
  by (cases r) (simp add: and_then_def split: option.splits)

lemma and_then_ok [simp]: "and_then (None, w) f = f w"
  by (simp add: and_then_def)

lemma and_then_raised [simp]: "and_then (Some e, w) f = (Some e, w)"
  by (simp add: and_then_def)

lemma fst_and_then_None:
  "fst (and_then r f) = None \<longleftrightarrow> fst r = None \<and> fst (f (snd r)) = None"
  by (cases r) (auto simp: and_then_def split: option.splits)

lemma snd_and_then_cases:
  "snd (and_then r f) = (case fst r of None \<Rightarrow> snd (f (snd r)) | Some e \<Rightarrow> snd r)"
  by (cases r) (simp add: and_then_def split: option.splits)

lemma initialize_data_dir_steps:
  "initialize_data_dir g xdg gen cfg w0 =
     and_then (ensure_directories g xdg cfg w0)
       (\<lambda>w3. if nodekey cfg = None then
                (case generate_privkey gen w3 of
                   (key, w4) \<Rightarrow> open_wb_write (nodekey_path cfg) (to_bytes key) w4)
              else (None, w3))"
  by (simp add: initialize_data_dir_def ensure_directories_def and_then_assoc)

lemma keeps_refl [simp]: "keeps w w"
  by (simp add: keeps_def)

lemma keeps_trans: "keeps w w' \<Longrightarrow> keeps w' w'' \<Longrightarrow> keeps w w''"
  by (auto simp: keeps_def dom_def)

lemma keeps_and_then:
  assumes "keeps w (snd r)" and "\<And>w'. keeps w' (snd (f w'))"
  shows "keeps w (snd (and_then r f))"
proof (cases r)
  case (Pair x w')
  show ?thesis
  proof (cases x)
    case None
    with Pair assms(1) assms(2) [of w'] show ?thesis
      by (auto intro: keeps_trans)
  next
    case (Some e)
    with Pair assms(1) show ?thesis by simp
  qed
qed

lemma keeps_mkdir_parents: "keeps w (snd (mkdir_parents p w))"
  by (simp add: mkdir_parents_def keeps_def)

lemma keeps_touch: "keeps w (snd (touch p w))"
  by (auto simp: touch_def keeps_def path_exists_def)

lemma keeps_ensure_directories: "keeps w (snd (ensure_directories g xdg cfg w))"
  unfolding ensure_directories_def
  by (intro keeps_and_then) (simp_all add: keeps_mkdir_parents keeps_touch keeps_and_then)

lemma keeps_initialize_data_dir:
  assumes "nodekey cfg \<noteq> None"
  shows "keeps w (snd (initialize_data_dir g xdg gen cfg w))"
proof -
  from assms obtain k where k: "nodekey cfg = Some k" by auto
  show ?thesis
    using keeps_ensure_directories [of w g xdg cfg]
    by (simp add: initialize_data_dir_steps snd_and_then_cases k split: option.splits)
qed

lemma open_wb_write_ok:
  assumes "fst (open_wb_write po content w) = None"
  shows "\<exists>p. po = Some p \<and> files (snd (open_wb_write po content w)) p = Some content \<and>
           privkeys_generated (snd (open_wb_write po content w)) = privkeys_generated w"
  using assms by (auto simp: open_wb_write_def split: option.splits if_splits)

lemma ensure_directories_existing:
  assumes "path_exists w (data_dir cfg)" and "path_exists w (logdir_path cfg)"
  shows "ensure_directories g xdg cfg w = mkdir_parents (database_dir cfg) w"
  using assms by (simp add: ensure_directories_def)

lemma mkdir_parents_path_exists:
  assumes "\<not> path_exists w q" and "q \<notin> set (prefixes p)"
  shows "\<not> path_exists (snd (mkdir_parents p w)) q"
  using assms by (simp add: mkdir_parents_def path_exists_def)

lemma open_wb_write_path_exists:
  assumes "\<not> path_exists w q" and "po \<noteq> Some q"
  shows "\<not> path_exists (snd (open_wb_write po content w)) q"
  using assms by (auto simp: open_wb_write_def path_exists_def split: option.splits)

lemma generate_privkey_path_exists [simp]:
  "path_exists (snd (generate_privkey gen w)) q = path_exists w q"
  by (simp add: generate_privkey_def path_exists_def)

lemma path_exists_mkdir_parents:
  "path_exists w p \<Longrightarrow> path_exists (snd (mkdir_parents q w)) p"
  by (auto simp: mkdir_parents_def path_exists_def)

lemma path_exists_touch:
  "path_exists w p \<Longrightarrow> path_exists (snd (touch q w)) p"
  by (auto simp: touch_def path_exists_def)

lemma path_exists_open_wb_write:
  "path_exists w p \<Longrightarrow> path_exists (snd (open_wb_write po content w)) p"
  by (auto simp: open_wb_write_def path_exists_def split: option.splits)

lemma touch_ok_exists:
  "fst (touch p w) = None \<Longrightarrow> path_exists (snd (touch p w)) p"
  by (auto simp: touch_def path_exists_def split: if_splits)

lemma mkdir_parents_ok_exists:
  "fst (mkdir_parents p w) = None \<Longrightarrow> path_exists (snd (mkdir_parents p w)) p"
  by (auto simp: mkdir_parents_def path_exists_def split: if_splits)

lemma path_exists_nodekey_step:
  "path_exists w p \<Longrightarrow>
   path_exists (snd (if nodekey cfg = None then
                (case generate_privkey gen w of
                   (key, w4) \<Rightarrow> open_wb_write (nodekey_path cfg) (to_bytes key) w4)
              else (None, w))) p"
  by (simp add: split_beta path_exists_open_wb_write)

text \<open>
  A run that returns normally from a world without the log directory (the log directory
  not being an ancestor of the base directory): the log directory is under the managed
  root, and the base directory, the log directory, the log file and the database
  directory all exist afterwards.
\<close>

lemma initialize_data_dir_layout:
  assumes run: "fst (initialize_data_dir g xdg gen cfg w) = None"
    and missing: "\<not> path_exists w (logdir_path cfg)"
    and apart: "logdir_path cfg \<notin> set (prefixes (data_dir cfg))"
  shows "xdg (logdir_path cfg) \<and>
         path_exists (snd (initialize_data_dir g xdg gen cfg w)) (data_dir cfg) \<and>
         path_exists (snd (initialize_data_dir g xdg gen cfg w)) (logdir_path cfg) \<and>
         path_exists (snd (initialize_data_dir g xdg gen cfg w)) (logfile_path cfg) \<and>
         path_exists (snd (initialize_data_dir g xdg gen cfg w)) (database_dir cfg)"
proof -
  define r1 where "r1 =
    (if \<not> path_exists w (data_dir cfg) \<and> xdg (data_dir cfg) then
       mkdir_parents (data_dir cfg) w
     else if \<not> path_exists w (data_dir cfg) then
       (Some (raise_MissingPath g
          ''The base chain directory provided does not exist: '' (data_dir cfg)), w)
     else (None, w))"
  define step2 where "step2 = (\<lambda>w1.
    if \<not> path_exists w1 (logdir_path cfg) \<and> xdg (logdir_path cfg) then
       and_then (mkdir_parents (logdir_path cfg) w1) (touch (logfile_path cfg))
     else if \<not> path_exists w1 (logdir_path cfg) then
       (Some (raise_MissingPath g
          ''The base logging directory provided does not exist: '' (logdir_path cfg)), w1)
     else (None, w1))"
  define step4 where "step4 = (\<lambda>w3.
    if nodekey cfg = None then
      (case generate_privkey gen w3 of
         (key, w4) \<Rightarrow> open_wb_write (nodekey_path cfg) (to_bytes key) w4)
    else (None, w3))"
  define w1 where "w1 = snd r1"
  define r2 where "r2 = step2 w1"
  define w2 where "w2 = snd r2"
  define w3 where "w3 = snd (mkdir_parents (database_dir cfg) w2)"
  have eq: "initialize_data_dir g xdg gen cfg w =
      and_then r1 (\<lambda>w1. and_then (step2 w1)
        (\<lambda>w2. and_then (mkdir_parents (database_dir cfg) w2) step4))"
    by (simp add: initialize_data_dir_def r1_def step2_def step4_def)
  from run have ok1: "fst r1 = None" and ok2: "fst r2 = None"
    and ok3: "fst (mkdir_parents (database_dir cfg) w2) = None"
    unfolding eq by (simp_all add: fst_and_then_None r2_def w1_def w2_def)
  have out: "snd (initialize_data_dir g xdg gen cfg w) = snd (step4 w3)"
    using ok1 ok2 ok3
    unfolding eq by (simp add: snd_and_then_cases r2_def w1_def w2_def w3_def)
  have last: "path_exists (snd (step4 w3)) p" if "path_exists w3 p" for p
    using that unfolding step4_def by (rule path_exists_nodekey_step)
  have base1: "path_exists w1 (data_dir cfg)"
    using ok1 by (auto simp: w1_def r1_def mkdir_parents_ok_exists split: if_splits)
  have no1: "\<not> path_exists w1 (logdir_path cfg)"
    using missing apart
    by (auto simp: w1_def r1_def mkdir_parents_path_exists)
  with ok2 have managed: "xdg (logdir_path cfg)"
    by (auto simp: r2_def step2_def split: if_splits)
  with no1 have r2: "r2 = and_then (mkdir_parents (logdir_path cfg) w1) (touch (logfile_path cfg))"
    by (simp add: r2_def step2_def)
  from ok2 r2 have m: "fst (mkdir_parents (logdir_path cfg) w1) = None"
    and t: "fst (touch (logfile_path cfg) (snd (mkdir_parents (logdir_path cfg) w1))) = None"
    by (simp_all add: fst_and_then_None)
  from m t r2 have w2: "w2 = snd (touch (logfile_path cfg) (snd (mkdir_parents (logdir_path cfg) w1)))"
    by (simp add: w2_def snd_and_then_cases)
  have base2: "path_exists w2 (data_dir cfg)"
    unfolding w2 by (intro path_exists_touch path_exists_mkdir_parents base1)
  have dir2: "path_exists w2 (logdir_path cfg)"
    unfolding w2 by (rule path_exists_touch) (rule mkdir_parents_ok_exists [OF m])
  have file2: "path_exists w2 (logfile_path cfg)"
    unfolding w2 by (rule touch_ok_exists [OF t])
  have db3: "path_exists w3 (database_dir cfg)"
    unfolding w3_def by (rule mkdir_parents_ok_exists [OF ok3])
  from base2 have base3: "path_exists w3 (data_dir cfg)"
    unfolding w3_def by (rule path_exists_mkdir_parents)
  from dir2 have dir3: "path_exists w3 (logdir_path cfg)"
    unfolding w3_def by (rule path_exists_mkdir_parents)
  from file2 have file3: "path_exists w3 (logfile_path cfg)"
    unfolding w3_def by (rule path_exists_mkdir_parents)
  from managed last [OF base3] last [OF dir3] last [OF file3] last [OF db3]
  show ?thesis unfolding out by simp
qed

text \<open>The bootstrap of the example layout on the empty file system, under a managed root.\<close>

lemma fresh_world_run:
  "initialize_data_dir module_globals (\<lambda>p. True) example_gen
     (example_config 1 kp k) fresh_world =
   (if k = None then
      (case kp of
         None \<Rightarrow> (Some (TypeError ''expected str, bytes or os.PathLike object, not NoneType''),
           \<lparr> dirs = {[], [''data''], [''data'', ''logs''], [''data'', ''database'']},
             files = [[''data'', ''logs'', ''trinity.log''] \<mapsto> []],
             privkeys_generated = 1 \<rparr>)
       | Some p \<Rightarrow> open_wb_write (Some p) (to_bytes (example_gen 0))
           \<lparr> dirs = {[], [''data''], [''data'', ''logs''], [''data'', ''database'']},
             files = [[''data'', ''logs'', ''trinity.log''] \<mapsto> []],
             privkeys_generated = 1 \<rparr>)
    else (None,
           \<lparr> dirs = {[], [''data''], [''data'', ''logs''], [''data'', ''database'']},
             files = [[''data'', ''logs'', ''trinity.log''] \<mapsto> []],
             privkeys_generated = 0 \<rparr>))"
  by (auto simp: initialize_data_dir_def path_exists_def fresh_world_def
        example_config_def mkdir_parents_def touch_def generate_privkey_def
        open_wb_write_def split: option.splits)

lemma reduce_container:
  "ChainedExceptionWithTraceback_reduce (ChainedExceptionWithTraceback fmt e tb) =
     Inr (e, CHR 0x0A # CHR 0x22 # CHR 0x22 # CHR 0x22 # CHR 0x0A #
               concat (fmt e tb) @ [CHR 0x22, CHR 0x22, CHR 0x22])"
  by (simp add: ChainedExceptionWithTraceback_reduce_def ChainedExceptionWithTraceback_def
        remote_tb_text_def triple_quote_def)

lemma isinstance_container:
  "isinstance (ChainedExceptionWithTraceback fmt e tb) ''ChainedExceptionWithTraceback''"
  by (simp add: isinstance_def ChainedExceptionWithTraceback_def)

text \<open>
  The round trip of a container: the round trip of the embedded exception, then
  \<^verbatim>\<open>rebuild_exc\<close> with the stored text; a failure of the former is the outcome.
\<close>

lemma loads_dumps_container:
  "loads_dumps foreign (ChainedExceptionWithTraceback fmt e tb) =
    (case loads_dumps foreign e of
       Inl err \<Rightarrow> Inl err
     | Inr e' \<Rightarrow>
         Inr (rebuild_exc e'
               (CHR 0x0A # CHR 0x22 # CHR 0x22 # CHR 0x22 # CHR 0x0A #
                  concat (fmt e tb) @ [CHR 0x22, CHR 0x22, CHR 0x22])))"
  by (subst loads_dumps.simps) (simp add: isinstance_container reduce_container)

lemma loads_dumps_foreign:
  "\<not> isinstance e ''ChainedExceptionWithTraceback'' \<Longrightarrow> loads_dumps foreign e = foreign e"
  by (subst loads_dumps.simps) simp


lemma KeyError_plain:
  "isinstance (KeyError k) ''Exception''"
  "\<not> isinstance (KeyError k) ''ChainedExceptionWithTraceback''"
  "example_foreign (KeyError k) = Inr (KeyError k)"
  by (simp_all add: isinstance_def KeyError_def new_exception_def Exception_bases_def
        example_foreign_def)

lemma decode_state_root:
  "example_decode_hex (VStr state_root_literal) =
     Inr [215, 248, 151, 79, 181, 172, 120, 217, 172, 9, 155, 154, 213, 1, 139, 237,
          194, 206, 10, 114, 218, 209, 130, 122, 23, 9, 218, 48, 88, 15, 5, 68]"
  by (simp add: example_decode_hex_def state_root_literal_def remove_0x_prefix_def hex_digit_def)

lemma decode_chain_id: "example_decode_hex (VStr ''0x01'') = Inr [1]"
  by (simp add: example_decode_hex_def remove_0x_prefix_def hex_digit_def)

section \<open>The chain database initializer\<close>

text \<open>
  Claim C1. For every chain database whose canonical head is missing (the read raises
  \<^verbatim>\<open>CanonicalHeadNotFound\<close>), \<^verbatim>\<open>initialize_database\<close> is exactly one call of
  \<^verbatim>\<open>persist_header\<close>, on the header selected by the network id: the fixed mainnet
  header for the mainnet id, the fixed ropsten header for the ropsten id, and the
  header of the configuration otherwise. For every database that has a canonical head
  the call persists nothing and leaves the database as it was. The two network ids are
  constants of another module; they are taken to differ.
\<close>

theorem initialize_database_selects_genesis:
  assumes "MAINNET_NETWORK_ID k \<noteq> ROPSTEN_NETWORK_ID k"
  shows "(\<forall>e. get_canonical_head db = Inl e \<and> isinstance e ''CanonicalHeadNotFound'' \<longrightarrow>
            initialize_database k get_canonical_head persist_header cfg db =
              persist_header
                (if network_id cfg = MAINNET_NETWORK_ID k then MAINNET_GENESIS_HEADER k
                 else if network_id cfg = ROPSTEN_NETWORK_ID k then ROPSTEN_GENESIS_HEADER k
                 else genesis_header cfg) db) \<and>
         (\<forall>h. get_canonical_head db = Inr h \<longrightarrow>
            initialize_database k get_canonical_head persist_header cfg db = Inr db)"
  using assms by (auto simp: initialize_database_def)

text \<open>
  On the list database: the empty database ends with exactly the selected header for
  each of the three identities, and a second call changes nothing.
\<close>

theorem initialize_database_selects_genesis_witness:
  "initialize_database example_constants list_get_canonical_head list_persist_header
     (example_config 1 None None) [] = Inr [MAINNET_GENESIS_HEADER example_constants] \<and>
   initialize_database example_constants list_get_canonical_head list_persist_header
     (example_config 3 None None) [] = Inr [ROPSTEN_GENESIS_HEADER example_constants] \<and>
   initialize_database example_constants list_get_canonical_head list_persist_header
     (example_config 1337 None None) [] = Inr [genesis_header (example_config 1337 None None)] \<and>
   initialize_database example_constants list_get_canonical_head list_persist_header
     (example_config 1 None None) [MAINNET_GENESIS_HEADER example_constants] =
       Inr [MAINNET_GENESIS_HEADER example_constants]"
proof -
  have ids: "MAINNET_NETWORK_ID example_constants \<noteq> ROPSTEN_NETWORK_ID example_constants"
    by (simp add: example_constants_def)
  have empty: "list_get_canonical_head [] =
      Inl (CanonicalHeadNotFound ''No canonical head set for this chain'')"
    by (simp add: list_get_canonical_head_def)
  have full: "list_get_canonical_head [MAINNET_GENESIS_HEADER example_constants] =
      Inr (MAINNET_GENESIS_HEADER example_constants)"
    by (simp add: list_get_canonical_head_def)
  note sel =
    initialize_database_selects_genesis [OF ids, of list_get_canonical_head _ list_persist_header]
  from sel [of "[]" "example_config 1 None None"] empty isinstance_CanonicalHeadNotFound
  have a: "initialize_database example_constants list_get_canonical_head list_persist_header
     (example_config 1 None None) [] = Inr [MAINNET_GENESIS_HEADER example_constants]"
    by (simp add: list_persist_header_def example_config_def example_constants_def)
  from sel [of "[]" "example_config 3 None None"] empty isinstance_CanonicalHeadNotFound
  have b: "initialize_database example_constants list_get_canonical_head list_persist_header
     (example_config 3 None None) [] = Inr [ROPSTEN_GENESIS_HEADER example_constants]"
    by (simp add: list_persist_header_def example_config_def example_constants_def)
  from sel [of "[]" "example_config 1337 None None"] empty isinstance_CanonicalHeadNotFound
  have c: "initialize_database example_constants list_get_canonical_head list_persist_header
     (example_config 1337 None None) [] = Inr [genesis_header (example_config 1337 None None)]"
    by (simp add: list_persist_header_def example_config_def example_constants_def)
  from sel [of "[MAINNET_GENESIS_HEADER example_constants]" "example_config 1 None None"] full
  have d: "initialize_database example_constants list_get_canonical_head list_persist_header
     (example_config 1 None None) [MAINNET_GENESIS_HEADER example_constants] =
       Inr [MAINNET_GENESIS_HEADER example_constants]"
    by simp
  from a b c d show ?thesis by simp
qed

text \<open>
  Claim C2. \<^verbatim>\<open>is_database_initialized\<close> returns true whenever reading the canonical
  head succeeds, returns false exactly when the read raises
  \<^verbatim>\<open>CanonicalHeadNotFound\<close>, and lets every other exception of the read through
  unchanged, as \<^verbatim>\<open>initialize_database\<close> does; it never raises
  \<^verbatim>\<open>CanonicalHeadNotFound\<close> itself. The initializer turns that condition of the read
  into the persist call, so with a \<^verbatim>\<open>persist_header\<close> that does not raise it (the
  collaborator's contract) no \<^verbatim>\<open>CanonicalHeadNotFound\<close> leaves
  \<^verbatim>\<open>initialize_database\<close>.
\<close>

theorem is_database_initialized_outcomes:
  "(\<forall>h. get_canonical_head db = Inr h \<longrightarrow>
      is_database_initialized get_canonical_head db = Inr True) \<and>
   (is_database_initialized get_canonical_head db = Inr False \<longleftrightarrow>
      (\<exists>e. get_canonical_head db = Inl e \<and> isinstance e ''CanonicalHeadNotFound'')) \<and>
   (\<forall>e. get_canonical_head db = Inl e \<and> \<not> isinstance e ''CanonicalHeadNotFound'' \<longrightarrow>
      is_database_initialized get_canonical_head db = Inl e \<and>
      initialize_database k get_canonical_head persist_header cfg db = Inl e) \<and>
   (\<forall>e. is_database_initialized get_canonical_head db = Inl e \<longrightarrow>
      \<not> isinstance e ''CanonicalHeadNotFound'') \<and>
   ((\<forall>h d e. persist_header h d = Inl e \<longrightarrow> \<not> isinstance e ''CanonicalHeadNotFound'') \<longrightarrow>
    (\<forall>e. initialize_database k get_canonical_head persist_header cfg db = Inl e \<longrightarrow>
      \<not> isinstance e ''CanonicalHeadNotFound''))"
  by (auto simp: is_database_initialized_def initialize_database_def
           split: sum.splits if_splits)

theorem is_database_initialized_outcomes_witness:
  "is_database_initialized list_get_canonical_head [] = Inr False \<and>
   is_database_initialized list_get_canonical_head [example_header 1] = Inr True \<and>
   is_database_initialized (\<lambda>db. Inl (TypeError ''unreadable'')) ([] :: block_header list) =
     Inl (TypeError ''unreadable'') \<and>
   \<not> (\<exists>e. initialize_database example_constants list_get_canonical_head list_persist_header
            (example_config 1 None None) [] = Inl e \<and>
          isinstance e ''CanonicalHeadNotFound'')"
proof -
  have empty: "list_get_canonical_head [] =
      Inl (CanonicalHeadNotFound ''No canonical head set for this chain'')"
    by (simp add: list_get_canonical_head_def)
  have full: "list_get_canonical_head [example_header 1] = Inr (example_header 1)"
    by (simp add: list_get_canonical_head_def)
  have other: "\<not> isinstance (TypeError ''unreadable'') ''CanonicalHeadNotFound''"
    by (simp add: isinstance_def TypeError_def new_exception_def Exception_bases_def)
  have persist: "\<forall>h d e. list_persist_header h d = Inl e \<longrightarrow>
      \<not> isinstance e ''CanonicalHeadNotFound''"
    by (simp add: list_persist_header_def)
  from is_database_initialized_outcomes
      [of list_get_canonical_head "[]" example_constants list_persist_header
        "example_config 1 None None"]
    empty isinstance_CanonicalHeadNotFound persist
  have a: "is_database_initialized list_get_canonical_head [] = Inr False"
    and d: "\<not> (\<exists>e. initialize_database example_constants list_get_canonical_head
            list_persist_header (example_config 1 None None) [] = Inl e \<and>
          isinstance e ''CanonicalHeadNotFound'')"
    by blast+
  from is_database_initialized_outcomes
      [of list_get_canonical_head "[example_header 1]" example_constants list_persist_header
        "example_config 1 None None"] full
  have b: "is_database_initialized list_get_canonical_head [example_header 1] = Inr True"
    by blast
  from is_database_initialized_outcomes
      [of "\<lambda>db. Inl (TypeError ''unreadable'')" "[] :: block_header list" example_constants
        list_persist_header "example_config 1 None None"] other
  have c: "is_database_initialized (\<lambda>db. Inl (TypeError ''unreadable''))
      ([] :: block_header list) = Inl (TypeError ''unreadable'')"
    by blast
  from a b c d show ?thesis by blast
qed

section \<open>Genesis configuration: validation and derivation\<close>

text \<open>
  Claim C9, as amended. For every genesis config in which the key \<^verbatim>\<open>difficulty\<close> is
  absent, \<^verbatim>\<open>is_valid_genesis_header\<close> fails with a \<^verbatim>\<open>ValidationError\<close> that
  names the first missing key of the fixed order: \<^verbatim>\<open>chainId\<close> when that key is
  absent too, and \<^verbatim>\<open>difficulty\<close> otherwise, whichever of \<^verbatim>\<open>gasLimit\<close>,
  \<^verbatim>\<open>nonce\<close> and \<^verbatim>\<open>extraData\<close> are present.
\<close>

theorem is_valid_genesis_header_first_missing:
  "genesis ''difficulty'' = None \<Longrightarrow>
   is_valid_genesis_header genesis =
     Inl (ValidationError (''genesis config missing required '' @
       squote (if genesis ''chainId'' = None then ''chainId'' else ''difficulty'')))"
  by (simp add: is_valid_genesis_header_def)

theorem is_valid_genesis_header_first_missing_witness:
  "is_valid_genesis_header [''chainId'' \<mapsto> VStr ''0x01'', ''nonce'' \<mapsto> VInt 0] =
     Inl (ValidationError (''genesis config missing required '' @ squote ''difficulty''))"
  using is_valid_genesis_header_first_missing
    [of "[''chainId'' \<mapsto> VStr ''0x01'', ''nonce'' \<mapsto> VInt 0]"]
  by simp

text \<open>
  The claim as it was stated fails on the empty config: \<^verbatim>\<open>difficulty\<close> is absent,
  and the error names \<^verbatim>\<open>chainId\<close>, not \<^verbatim>\<open>difficulty\<close>.
\<close>

theorem is_valid_genesis_header_counterexample:
  "(Map.empty :: genesis) ''difficulty'' = None \<and>
   is_valid_genesis_header Map.empty =
     Inl (ValidationError (''genesis config missing required '' @ squote ''chainId'')) \<and>
   is_valid_genesis_header Map.empty \<noteq>
     Inl (ValidationError (''genesis config missing required '' @ squote ''difficulty''))"
  by (simp add: is_valid_genesis_header_def ValidationError_def new_exception_def squote_def)

text \<open>
  Claim C8. The claim is that \<^verbatim>\<open>get_genesis_header\<close> returns the header built from
  the config and the fixed defaults. In the module as written the name
  \<^verbatim>\<open>constants\<close> is not bound, so for every config that holds \<^verbatim>\<open>difficulty\<close>,
  \<^verbatim>\<open>extraData\<close> and \<^verbatim>\<open>gasLimit\<close> the call raises \<^verbatim>\<open>NameError\<close> when it
  reaches \<^verbatim>\<open>constants.ZERO_HASH32\<close>, and no header is returned.
\<close>

theorem get_genesis_header_unbound_constants:
  "genesis ''difficulty'' = Some d \<Longrightarrow> genesis ''extraData'' = Some x \<Longrightarrow>
   genesis ''gasLimit'' = Some l \<Longrightarrow>
   get_genesis_header module_globals consts decode_hex genesis = Inl (NameError ''constants'')"
  by (simp add: get_genesis_header_def constants_unbound)

theorem get_genesis_header_unbound_constants_witness:
  "get_genesis_header module_globals example_eth_constants example_decode_hex example_genesis =
     Inl (NameError ''constants'')"
  using get_genesis_header_unbound_constants
    [of example_genesis "VInt 1024" "VStr ''0x''" "VInt 5000" example_eth_constants
      example_decode_hex]
  by (simp add: example_genesis_def)

text \<open>
  In a namespace that binds \<^verbatim>\<open>constants\<close>, the same function body returns the header
  of the supplied \<^verbatim>\<open>difficulty\<close>, \<^verbatim>\<open>extraData\<close>, \<^verbatim>\<open>gasLimit\<close> and
  \<^verbatim>\<open>nonce\<close> with the fixed defaults, and the decoded \<^verbatim>\<open>chainId\<close>; it is a
  function of its arguments, so equal configs give equal headers.
\<close>

theorem get_genesis_header_bound_constants:
  assumes "''constants'' \<in> set g"
    and "genesis ''difficulty'' = Some d" and "genesis ''extraData'' = Some x"
    and "genesis ''gasLimit'' = Some l" and "genesis ''nonce'' = Some n"
    and "genesis ''chainId'' = Some c"
    and "decode_hex (VStr state_root_literal) = Inr root"
    and "decode_hex c = Inr network"
  shows "get_genesis_header g consts decode_hex genesis =
     Inr (\<lparr> difficulty = d, extra_data = x, gas_limit = l, gas_used = 0, bloom = 0,
            mix_hash = ZERO_HASH32 consts, nonce = n, block_number = 0,
            parent_hash = ZERO_HASH32 consts, receipt_root = BLANK_ROOT_HASH consts,
            uncles_hash = EMPTY_UNCLE_HASH consts, state_root = root, timestamp = 0,
            transaction_root = BLANK_ROOT_HASH consts \<rparr>, network)"
  using assms by (simp add: get_genesis_header_def)

theorem get_genesis_header_bound_constants_witness:
  "get_genesis_header (''constants'' # module_globals) example_eth_constants example_decode_hex
     example_genesis =
     Inr (\<lparr> difficulty = VInt 1024, extra_data = VStr ''0x'', gas_limit = VInt 5000,
            gas_used = 0, bloom = 0, mix_hash = replicate 32 0,
            nonce = VStr ''0x0000000000000042'', block_number = 0,
            parent_hash = replicate 32 0, receipt_root = [86, 232], uncles_hash = [29, 204],
            state_root =
              [215, 248, 151, 79, 181, 172, 120, 217, 172, 9, 155, 154, 213, 1, 139, 237,
               194, 206, 10, 114, 218, 209, 130, 122, 23, 9, 218, 48, 88, 15, 5, 68],
            timestamp = 0, transaction_root = [86, 232] \<rparr>, [1])"
proof -
  have g: "''constants'' \<in> set (''constants'' # module_globals)" by simp
  have keys: "example_genesis ''difficulty'' = Some (VInt 1024)"
    "example_genesis ''extraData'' = Some (VStr ''0x'')"
    "example_genesis ''gasLimit'' = Some (VInt 5000)"
    "example_genesis ''nonce'' = Some (VStr ''0x0000000000000042'')"
    "example_genesis ''chainId'' = Some (VStr ''0x01'')"
    by (simp_all add: example_genesis_def)
  from get_genesis_header_bound_constants
    [OF g keys decode_state_root decode_chain_id, of example_eth_constants]
  show ?thesis by (simp add: example_eth_constants_def)
qed

section \<open>The bootstrap of the data directory\<close>

text \<open>
  Claim C7. The claim is that a missing base directory outside the managed root makes
  \<^verbatim>\<open>initialize_data_dir\<close> fail with \<^verbatim>\<open>MissingPath\<close> naming the path. In the
  module as written the name \<^verbatim>\<open>MissingPath\<close> is not bound: for every such layout
  the \<^verbatim>\<open>raise\<close> statement raises \<^verbatim>\<open>NameError\<close>, which is not a
  \<^verbatim>\<open>MissingPath\<close> and names no path. The failure is fatal all the same: no later
  statement runs and the world is untouched.
\<close>

theorem initialize_data_dir_unmanaged_base:
  assumes "\<not> path_exists w (data_dir cfg)" and "\<not> xdg (data_dir cfg)"
  shows "initialize_data_dir module_globals xdg gen cfg w = (Some (NameError ''MissingPath''), w) \<and>
         \<not> isinstance (NameError ''MissingPath'') ''MissingPath''"
  using assms
  by (simp add: initialize_data_dir_def raise_MissingPath_def MissingPath_unbound
        NameError_not_MissingPath)

theorem initialize_data_dir_unmanaged_base_witness:
  "initialize_data_dir module_globals (\<lambda>p. False) example_gen
     (example_config 1 None (Some example_key)) fresh_world =
       (Some (NameError ''MissingPath''), fresh_world) \<and>
   \<not> isinstance (NameError ''MissingPath'') ''MissingPath''"
proof -
  have "\<not> path_exists fresh_world (data_dir (example_config 1 None (Some example_key)))"
    by (simp add: path_exists_def fresh_world_def example_config_def)
  from initialize_data_dir_unmanaged_base [OF this, of "\<lambda>p. False" example_gen]
  show ?thesis by simp
qed

text \<open>
  In a namespace that binds \<^verbatim>\<open>MissingPath\<close>, the same statement raises it with the
  message that ends in the path and with the path as second argument.
\<close>

theorem initialize_data_dir_unmanaged_base_bound:
  assumes "''MissingPath'' \<in> set g"
    and "\<not> path_exists w (data_dir cfg)" and "\<not> xdg (data_dir cfg)"
  shows "initialize_data_dir g xdg gen cfg w =
     (Some (MissingPath
        (''The base chain directory provided does not exist: '' @
           backquote (path_str (data_dir cfg))) (data_dir cfg)), w)"
  using assms by (simp add: initialize_data_dir_def raise_MissingPath_def)

theorem initialize_data_dir_unmanaged_base_bound_witness:
  "initialize_data_dir (''MissingPath'' # module_globals) (\<lambda>p. False) example_gen
     (example_config 1 None (Some example_key)) fresh_world =
     (Some (MissingPath
        (''The base chain directory provided does not exist: '' @ backquote ''/data'')
        [''data'']), fresh_world)"
proof -
  have g: "''MissingPath'' \<in> set (''MissingPath'' # module_globals)" by simp
  have "\<not> path_exists fresh_world (data_dir (example_config 1 None (Some example_key)))"
    by (simp add: path_exists_def fresh_world_def example_config_def)
  from initialize_data_dir_unmanaged_base_bound [OF g this, of "\<lambda>p. False" example_gen]
  show ?thesis by (simp add: example_config_def path_str_def)
qed

text \<open>
  A missing base directory under the managed root is created with its ancestors, and
  the first statement does not fail: the run goes on as it does from the world in which
  the directory exists. (No ancestor of the path is a regular file.)
\<close>

theorem initialize_data_dir_managed_base:
  assumes "\<not> path_exists w (data_dir cfg)" and "xdg (data_dir cfg)"
    and "\<not> list_ex (\<lambda>q. q \<in> dom (files w)) (prefixes (data_dir cfg))"
  shows "initialize_data_dir g xdg gen cfg w =
           initialize_data_dir g xdg gen cfg
             (w\<lparr>dirs := dirs w \<union> set (prefixes (data_dir cfg))\<rparr>) \<and>
         path_exists (w\<lparr>dirs := dirs w \<union> set (prefixes (data_dir cfg))\<rparr>) (data_dir cfg)"
proof -
  let ?w = "w\<lparr>dirs := dirs w \<union> set (prefixes (data_dir cfg))\<rparr>"
  have there: "path_exists ?w (data_dir cfg)"
    by (simp add: path_exists_def)
  from assms(1,3) have made: "mkdir_parents (data_dir cfg) w = (None, ?w)"
    by (simp add: mkdir_parents_def path_exists_def)
  show ?thesis
    using assms(1,2) there made by (simp add: initialize_data_dir_def)
qed

theorem initialize_data_dir_managed_base_witness:
  "initialize_data_dir module_globals (\<lambda>p. True) example_gen
     (example_config 1 None (Some example_key)) fresh_world =
   initialize_data_dir module_globals (\<lambda>p. True) example_gen
     (example_config 1 None (Some example_key))
     (fresh_world\<lparr>dirs := dirs fresh_world \<union> set (prefixes [''data''])\<rparr>) \<and>
   path_exists (fresh_world\<lparr>dirs := dirs fresh_world \<union> set (prefixes [''data''])\<rparr>)
     [''data'']"
proof -
  let ?cfg = "example_config 1 None (Some example_key)"
  have a: "\<not> path_exists fresh_world (data_dir ?cfg)"
    by (simp add: path_exists_def fresh_world_def example_config_def)
  have c: "\<not> list_ex (\<lambda>q. q \<in> dom (files fresh_world)) (prefixes (data_dir ?cfg))"
    by (simp add: fresh_world_def example_config_def)
  have d: "data_dir ?cfg = [''data'']"
    by (simp add: example_config_def)
  from initialize_data_dir_managed_base [OF a _ c, of "\<lambda>p. True" module_globals example_gen]
  show ?thesis unfolding d by simp
qed

text \<open>
  Claim C6. The claim is that the log file exists after every successful
  \<^verbatim>\<open>initialize_data_dir\<close>, whether the log directory existed before or was just
  created. The function touches the log file only in the branch that creates the log
  directory: for every layout whose base and log directories exist and whose log file
  does not (the log file being neither the nodekey path nor on the way to the database
  directory), the log file is still missing afterwards, and \<^verbatim>\<open>is_data_dir_initialized\<close>
  still answers false.
\<close>

theorem initialize_data_dir_logfile_missing:
  assumes "path_exists w (data_dir cfg)" and "path_exists w (logdir_path cfg)"
    and "\<not> path_exists w (logfile_path cfg)"
    and "logfile_path cfg \<notin> set (prefixes (database_dir cfg))"
    and "nodekey_path cfg \<noteq> Some (logfile_path cfg)"
  shows "\<not> path_exists (snd (initialize_data_dir g xdg gen cfg w)) (logfile_path cfg) \<and>
         \<not> is_data_dir_initialized cfg (snd (initialize_data_dir g xdg gen cfg w))"
proof -
  let ?w3 = "snd (mkdir_parents (database_dir cfg) w)"
  have w3: "\<not> path_exists ?w3 (logfile_path cfg)"
    using assms(3,4) by (rule mkdir_parents_path_exists)
  have "\<not> path_exists (snd (initialize_data_dir g xdg gen cfg w)) (logfile_path cfg)"
  proof (cases "fst (mkdir_parents (database_dir cfg) w)")
    case (Some e)
    with w3 show ?thesis
      by (simp add: initialize_data_dir_steps ensure_directories_existing [OF assms(1,2)]
            snd_and_then_cases)
  next
    case None
    show ?thesis
    proof (cases "nodekey cfg")
      case (Some k)
      with None w3 show ?thesis
        by (simp add: initialize_data_dir_steps ensure_directories_existing [OF assms(1,2)]
              snd_and_then_cases)
    next
      case nk: None
      have "\<not> path_exists (snd (generate_privkey gen ?w3)) (logfile_path cfg)"
        using w3 by simp
      from open_wb_write_path_exists [OF this assms(5)]
      have "\<not> path_exists
          (snd (open_wb_write (nodekey_path cfg) (to_bytes (fst (generate_privkey gen ?w3)))
             (snd (generate_privkey gen ?w3)))) (logfile_path cfg)" .
      with None nk show ?thesis
        by (simp add: initialize_data_dir_steps ensure_directories_existing [OF assms(1,2)]
              snd_and_then_cases split_beta)
    qed
  qed
  then show ?thesis by (simp add: is_data_dir_initialized_def)
qed

text \<open>
  The layout \<^verbatim>\<open>/data\<close> with \<^verbatim>\<open>/data/logs\<close> present and the log file absent: the
  call returns normally and the log file is still absent.
\<close>

theorem initialize_data_dir_logfile_missing_witness:
  "fst (initialize_data_dir module_globals (\<lambda>p. True) example_gen
     (example_config 1 None (Some example_key)) logdir_only_world) = None \<and>
   \<not> path_exists (snd (initialize_data_dir module_globals (\<lambda>p. True) example_gen
     (example_config 1 None (Some example_key)) logdir_only_world))
     [''data'', ''logs'', ''trinity.log''] \<and>
   \<not> is_data_dir_initialized (example_config 1 None (Some example_key))
     (snd (initialize_data_dir module_globals (\<lambda>p. True) example_gen
       (example_config 1 None (Some example_key)) logdir_only_world))"
proof -
  let ?cfg = "example_config 1 None (Some example_key)"
  have a: "path_exists logdir_only_world (data_dir ?cfg)"
    and b: "path_exists logdir_only_world (logdir_path ?cfg)"
    and c: "\<not> path_exists logdir_only_world (logfile_path ?cfg)"
    and d: "logfile_path ?cfg \<notin> set (prefixes (database_dir ?cfg))"
    and e: "nodekey_path ?cfg \<noteq> Some (logfile_path ?cfg)"
    by (simp_all add: path_exists_def logdir_only_world_def example_config_def)
  have ok: "fst (initialize_data_dir module_globals (\<lambda>p. True) example_gen ?cfg
      logdir_only_world) = None"
    by (simp add: initialize_data_dir_def path_exists_def logdir_only_world_def
          example_config_def mkdir_parents_def)
  from initialize_data_dir_logfile_missing
    [OF a b c d e, of module_globals "\<lambda>p. True" example_gen] ok
  show ?thesis by (simp add: example_config_def)
qed

text \<open>
  What the nodekey statement does on a run that returns normally with no nodekey loaded:
  one key is drawn, a nodekey path is configured, and the file there holds the raw bytes
  of that key.
\<close>

lemma initialize_data_dir_generates:
  assumes nk: "nodekey cfg = None"
    and run: "fst (initialize_data_dir g xdg gen cfg w) = None"
  shows "privkeys_generated (snd (initialize_data_dir g xdg gen cfg w)) =
           Suc (privkeys_generated w) \<and>
         (\<exists>p. nodekey_path cfg = Some p \<and>
              files (snd (initialize_data_dir g xdg gen cfg w)) p =
                Some (to_bytes (gen (privkeys_generated w))))"
proof -
  let ?w3 = "snd (ensure_directories g xdg cfg w)"
  let ?w4 = "?w3\<lparr>privkeys_generated := Suc (privkeys_generated ?w3)\<rparr>"
  let ?content = "to_bytes (gen (privkeys_generated ?w3))"
  have n: "privkeys_generated ?w3 = privkeys_generated w"
    using keeps_ensure_directories [of w g xdg cfg] by (simp add: keeps_def)
  from run have dirs_ok: "fst (ensure_directories g xdg cfg w) = None"
    by (simp add: initialize_data_dir_steps fst_and_then_None)
  from run have ok: "fst (open_wb_write (nodekey_path cfg) ?content ?w4) = None"
    by (simp add: initialize_data_dir_steps fst_and_then_None nk generate_privkey_def)
  have out: "snd (initialize_data_dir g xdg gen cfg w) =
      snd (open_wb_write (nodekey_path cfg) ?content ?w4)"
    by (simp add: initialize_data_dir_steps snd_and_then_cases dirs_ok nk
          generate_privkey_def)
  from open_wb_write_ok [OF ok] n out show ?thesis by auto
qed

text \<open>
  Claim C5, as amended. For every call of \<^verbatim>\<open>initialize_data_dir\<close> that returns
  normally, a fresh key has been generated exactly when the nodekey loaded by the
  configuration was absent (\<^verbatim>\<open>chain_config.nodekey is None\<close>), and then a nodekey
  path is configured and the file there holds the raw bytes of that key. For every
  layout whose nodekey exists, no call, successful or not, generates a key, and every
  existing file, the nodekey file among them, keeps its bytes.
\<close>

theorem initialize_data_dir_nodekey:
  "(nodekey cfg \<noteq> None \<longrightarrow> keeps w (snd (initialize_data_dir g xdg gen cfg w))) \<and>
   (fst (initialize_data_dir g xdg gen cfg w) = None \<longrightarrow>
      (privkeys_generated (snd (initialize_data_dir g xdg gen cfg w)) \<noteq> privkeys_generated w
         \<longleftrightarrow> nodekey cfg = None)) \<and>
   (nodekey cfg = None \<and> fst (initialize_data_dir g xdg gen cfg w) = None \<longrightarrow>
      privkeys_generated (snd (initialize_data_dir g xdg gen cfg w)) =
        Suc (privkeys_generated w) \<and>
      (\<exists>p. nodekey_path cfg = Some p \<and>
           files (snd (initialize_data_dir g xdg gen cfg w)) p =
             Some (to_bytes (gen (privkeys_generated w)))))"
proof (intro conjI impI)
  assume "nodekey cfg \<noteq> None"
  then show "keeps w (snd (initialize_data_dir g xdg gen cfg w))"
    by (rule keeps_initialize_data_dir)
next
  assume run: "fst (initialize_data_dir g xdg gen cfg w) = None"
  show "privkeys_generated (snd (initialize_data_dir g xdg gen cfg w)) \<noteq> privkeys_generated w
          \<longleftrightarrow> nodekey cfg = None"
  proof (cases "nodekey cfg")
    case None
    with initialize_data_dir_generates [OF None run] show ?thesis by simp
  next
    case (Some k)
    then have "nodekey cfg \<noteq> None" by simp
    from keeps_initialize_data_dir [OF this, of w g xdg gen] Some show ?thesis
      by (simp add: keeps_def)
  qed
next
  assume a: "nodekey cfg = None \<and> fst (initialize_data_dir g xdg gen cfg w) = None"
  then have nk: "nodekey cfg = None"
    and run: "fst (initialize_data_dir g xdg gen cfg w) = None"
    by simp_all
  from initialize_data_dir_generates [OF nk run]
  show "privkeys_generated (snd (initialize_data_dir g xdg gen cfg w)) =
          Suc (privkeys_generated w)"
    by simp
  from initialize_data_dir_generates [OF nk run]
  show "\<exists>p. nodekey_path cfg = Some p \<and>
           files (snd (initialize_data_dir g xdg gen cfg w)) p =
             Some (to_bytes (gen (privkeys_generated w)))"
    by simp
qed

text \<open>
  With the nodekey path \<^verbatim>\<open>/data/nodekey\<close> and no nodekey, the bootstrap of the empty
  file system draws one key and writes its bytes there; with a nodekey present nothing
  is drawn and nothing that existed changes.
\<close>

theorem initialize_data_dir_nodekey_witness:
  "privkeys_generated (snd (initialize_data_dir module_globals (\<lambda>p. True) example_gen
     (example_config 1 (Some [''data'', ''nodekey'']) None) fresh_world)) = 1 \<and>
   files (snd (initialize_data_dir module_globals (\<lambda>p. True) example_gen
     (example_config 1 (Some [''data'', ''nodekey'']) None) fresh_world)) [''data'', ''nodekey''] =
       Some [0, 7] \<and>
   keeps logdir_only_world (snd (initialize_data_dir module_globals (\<lambda>p. True) example_gen
     (example_config 1 (Some [''data'', ''nodekey'']) (Some example_key)) logdir_only_world))"
proof -
  let ?cfg = "example_config 1 (Some [''data'', ''nodekey'']) None"
  let ?cfg' = "example_config 1 (Some [''data'', ''nodekey'']) (Some example_key)"
  have ok: "nodekey ?cfg = None \<and>
      fst (initialize_data_dir module_globals (\<lambda>p. True) example_gen ?cfg fresh_world) = None"
    by (simp add: fresh_world_run open_wb_write_def) (simp add: example_config_def)
  have some: "nodekey ?cfg' \<noteq> None"
    by (simp add: example_config_def)
  have kp: "nodekey_path ?cfg = Some [''data'', ''nodekey'']"
    by (simp add: example_config_def)
  from initialize_data_dir_nodekey [of ?cfg fresh_world module_globals "\<lambda>p. True" example_gen]
    initialize_data_dir_nodekey [of ?cfg' logdir_only_world module_globals "\<lambda>p. True" example_gen]
    ok some kp
  show ?thesis
    by (auto simp: fresh_world_def example_gen_def)
qed

text \<open>
  The claim as it was stated fails where no nodekey path is configured and a nodekey is
  given: the call returns normally, no key is generated and no key file is written (the
  only file afterwards is the log file).
\<close>

theorem initialize_data_dir_nodekey_counterexample:
  "nodekey_path (example_config 1 None (Some example_key)) = None \<and>
   fst (initialize_data_dir module_globals (\<lambda>p. True) example_gen
     (example_config 1 None (Some example_key)) fresh_world) = None \<and>
   privkeys_generated (snd (initialize_data_dir module_globals (\<lambda>p. True) example_gen
     (example_config 1 None (Some example_key)) fresh_world)) = 0 \<and>
   files (snd (initialize_data_dir module_globals (\<lambda>p. True) example_gen
     (example_config 1 None (Some example_key)) fresh_world)) =
       [[''data'', ''logs'', ''trinity.log''] \<mapsto> []]"
  by (simp add: fresh_world_run) (simp add: example_config_def)

text \<open>
  The branch that does create the log file: when the log directory is missing and the
  call returns normally, the log directory lies under the managed root and both it and
  the log file exist afterwards.
\<close>

theorem initialize_data_dir_creates_logfile:
  assumes "fst (initialize_data_dir g xdg gen cfg w) = None"
    and "\<not> path_exists w (logdir_path cfg)"
    and "logdir_path cfg \<notin> set (prefixes (data_dir cfg))"
  shows "xdg (logdir_path cfg) \<and>
         path_exists (snd (initialize_data_dir g xdg gen cfg w)) (logdir_path cfg) \<and>
         path_exists (snd (initialize_data_dir g xdg gen cfg w)) (logfile_path cfg)"
  using initialize_data_dir_layout [OF assms] by simp

theorem initialize_data_dir_creates_logfile_witness:
  "path_exists (snd (initialize_data_dir module_globals (\<lambda>p. True) example_gen
        (example_config 1 None (Some example_key)) fresh_world))
     [''data'', ''logs'', ''trinity.log'']"
proof -
  let ?cfg = "example_config 1 None (Some example_key)"
  have run: "fst (initialize_data_dir module_globals (\<lambda>p. True) example_gen ?cfg fresh_world) = None"
    by (simp add: fresh_world_run)
  have missing: "\<not> path_exists fresh_world (logdir_path ?cfg)"
    and apart: "logdir_path ?cfg \<notin> set (prefixes (data_dir ?cfg))"
    by (simp_all add: path_exists_def fresh_world_def example_config_def)
  have lf: "logfile_path ?cfg = [''data'', ''logs'', ''trinity.log'']"
    by (simp add: example_config_def)
  from initialize_data_dir_creates_logfile [OF run missing apart]
  show ?thesis unfolding lf by simp
qed

text \<open>
  From a world without the log directory, a run that returns normally leaves a layout
  that \<^verbatim>\<open>is_data_dir_initialized\<close> accepts, for a configuration whose log file lies
  in the log directory and whose nodekey is given explicitly.
\<close>

theorem initialize_data_dir_initializes:
  assumes run: "fst (initialize_data_dir g xdg gen cfg w) = None"
    and missing: "\<not> path_exists w (logdir_path cfg)"
    and apart: "logdir_path cfg \<notin> set (prefixes (data_dir cfg))"
    and parent: "butlast (logfile_path cfg) = logdir_path cfg"
    and given: "nodekey cfg \<noteq> None" and nopath: "nodekey_path cfg = None"
  shows "is_data_dir_initialized cfg (snd (initialize_data_dir g xdg gen cfg w))"
  using initialize_data_dir_layout [OF run missing apart] parent given nopath
  by (simp add: is_data_dir_initialized_def)

theorem initialize_data_dir_initializes_witness:
  "\<not> is_data_dir_initialized (example_config 1 None (Some example_key)) fresh_world \<and>
   is_data_dir_initialized (example_config 1 None (Some example_key))
     (snd (initialize_data_dir module_globals (\<lambda>p. True) example_gen
        (example_config 1 None (Some example_key)) fresh_world))"
proof -
  let ?cfg = "example_config 1 None (Some example_key)"
  have before: "\<not> is_data_dir_initialized ?cfg fresh_world"
    by (simp add: is_data_dir_initialized_def path_exists_def fresh_world_def example_config_def)
  have run: "fst (initialize_data_dir module_globals (\<lambda>p. True) example_gen ?cfg fresh_world) = None"
    by (simp add: fresh_world_run)
  have missing: "\<not> path_exists fresh_world (logdir_path ?cfg)"
    and apart: "logdir_path ?cfg \<notin> set (prefixes (data_dir ?cfg))"
    and parent: "butlast (logfile_path ?cfg) = logdir_path ?cfg"
    and given: "nodekey ?cfg \<noteq> None" and nopath: "nodekey_path ?cfg = None"
    by (simp_all add: path_exists_def fresh_world_def example_config_def)
  from initialize_data_dir_initializes [OF run missing apart parent given nopath] before
  show ?thesis by simp
qed

section \<open>The exception forwarder\<close>




text \<open>
  Claim C4, as amended. For every wrapped resource and every name of one of its
  attributes that the adapter does not define itself (so that the read reaches
  \<^verbatim>\<open>__getattr__\<close>): reading an attribute that is not a bound method (a plain value, or
  a callable that \<^verbatim>\<open>inspect.ismethod\<close> does not recognise) returns the underlying
  attribute unchanged, and reading a bound method returns a wrapper. With the wrapper a
  normal return passes the value through unchanged; an exception that is an instance of
  \<^verbatim>\<open>Exception\<close> is re-raised as a \<^verbatim>\<open>ChainedExceptionWithTraceback\<close> whose
  \<^verbatim>\<open>exc\<close> is the original exception and whose \<^verbatim>\<open>tb\<close> is its stack trace
  formatted to text (a newline, three double quotes, a newline, the joined lines of
  \<^verbatim>\<open>traceback.format_exception\<close>, three double quotes); any other exception passes
  through unchanged. A name the adapter defines itself (\<^verbatim>\<open>obj\<close>, \<^verbatim>\<open>__dir__\<close>,
  \<^verbatim>\<open>__class__\<close>, \<^verbatim>\<open>__str__\<close> and the like) reads as the adapter's own attribute.
\<close>

theorem read_attribute_through_recorder:
  assumes "obj name = Some a"
  shows "(name \<in> set own \<longrightarrow> read_attribute own fmt obj name = Inr (OwnAttribute name)) \<and>
         (name \<notin> set own \<and> \<not> inspect_ismethod a \<longrightarrow>
            read_attribute own fmt obj name = Inr (Delegated a)) \<and>
         (name \<notin> set own \<and> inspect_ismethod a \<longrightarrow>
            (\<exists>wrapper. read_attribute own fmt obj name = Inr (Delegated (OtherCallable wrapper)) \<and>
               (\<forall>args s v s'. call_attr a args s = (Inr v, s') \<longrightarrow> wrapper args s = (Inr v, s')) \<and>
               (\<forall>args s e s'. call_attr a args s = (Inl e, s') \<and> isinstance e ''Exception'' \<longrightarrow>
                  (\<exists>c. wrapper args s = (Inl c, s') \<and>
                       exc_type c = ''ChainedExceptionWithTraceback'' \<and>
                       map_of (exc_dict c) ''exc'' = Some (VException e) \<and>
                       map_of (exc_dict c) ''tb'' =
                         Some (VStr (CHR 0x0A # CHR 0x22 # CHR 0x22 # CHR 0x22 # CHR 0x0A #
                                 concat (fmt e (exc_traceback e)) @
                                 [CHR 0x22, CHR 0x22, CHR 0x22])))) \<and>
               (\<forall>args s e s'. call_attr a args s = (Inl e, s') \<and> \<not> isinstance e ''Exception'' \<longrightarrow>
                  wrapper args s = (Inl e, s'))))"
proof (intro conjI impI)
  assume "name \<in> set own"
  then show "read_attribute own fmt obj name = Inr (OwnAttribute name)"
    by (simp add: read_attribute_def)
next
  assume "name \<notin> set own \<and> \<not> inspect_ismethod a"
  with assms show "read_attribute own fmt obj name = Inr (Delegated a)"
    by (simp add: read_attribute_def TracebackRecorder_getattr_def)
next
  assume m: "name \<notin> set own \<and> inspect_ismethod a"
  let ?w = "record_traceback_on_error fmt a"
  have "read_attribute own fmt obj name = Inr (Delegated (OtherCallable ?w))"
    using assms m by (simp add: read_attribute_def TracebackRecorder_getattr_def)
  moreover have "\<forall>args s v s'. call_attr a args s = (Inr v, s') \<longrightarrow> ?w args s = (Inr v, s')"
    by (simp add: record_traceback_on_error_def)
  moreover have "\<forall>args s e s'. call_attr a args s = (Inl e, s') \<and> isinstance e ''Exception'' \<longrightarrow>
      (\<exists>c. ?w args s = (Inl c, s') \<and> exc_type c = ''ChainedExceptionWithTraceback'' \<and>
           map_of (exc_dict c) ''exc'' = Some (VException e) \<and>
           map_of (exc_dict c) ''tb'' =
             Some (VStr (CHR 0x0A # CHR 0x22 # CHR 0x22 # CHR 0x22 # CHR 0x0A #
                     concat (fmt e (exc_traceback e)) @ [CHR 0x22, CHR 0x22, CHR 0x22])))"
    by (simp add: record_traceback_on_error_def ChainedExceptionWithTraceback_def
          remote_tb_text_def triple_quote_def)
  moreover have "\<forall>args s e s'. call_attr a args s = (Inl e, s') \<and> \<not> isinstance e ''Exception'' \<longrightarrow>
      ?w args s = (Inl e, s')"
    by (simp add: record_traceback_on_error_def)
  ultimately show "\<exists>wrapper. read_attribute own fmt obj name = Inr (Delegated (OtherCallable wrapper)) \<and>
      (\<forall>args s v s'. call_attr a args s = (Inr v, s') \<longrightarrow> wrapper args s = (Inr v, s')) \<and>
      (\<forall>args s e s'. call_attr a args s = (Inl e, s') \<and> isinstance e ''Exception'' \<longrightarrow>
         (\<exists>c. wrapper args s = (Inl c, s') \<and>
              exc_type c = ''ChainedExceptionWithTraceback'' \<and>
              map_of (exc_dict c) ''exc'' = Some (VException e) \<and>
              map_of (exc_dict c) ''tb'' =
                Some (VStr (CHR 0x0A # CHR 0x22 # CHR 0x22 # CHR 0x22 # CHR 0x0A #
                        concat (fmt e (exc_traceback e)) @ [CHR 0x22, CHR 0x22, CHR 0x22])))) \<and>
      (\<forall>args s e s'. call_attr a args s = (Inl e, s') \<and> \<not> isinstance e ''Exception'' \<longrightarrow>
         wrapper args s = (Inl e, s'))"
    by blast
qed

text \<open>
  On the example resource with \<^verbatim>\<open>get\<close> a bound method that raises
  \<^verbatim>\<open>KeyError\<close>: the plain attribute \<^verbatim>\<open>name\<close> is read unchanged, and calling what
  \<^verbatim>\<open>get\<close> reads as raises the container of that \<^verbatim>\<open>KeyError\<close> with the formatted
  trace; on a resource that has an attribute \<^verbatim>\<open>obj\<close>, the read of \<^verbatim>\<open>obj\<close> gives
  the adapter's own.
\<close>

theorem read_attribute_through_recorder_witness:
  "read_attribute recorder_own_names example_fmt
     (example_resource (BoundMethod example_failing)) ''name'' =
     Inr (Delegated (Attribute (VStr ''db''))) \<and>
   (\<exists>wrapper c.
      read_attribute recorder_own_names example_fmt
        (example_resource (BoundMethod example_failing)) ''get'' =
        Inr (Delegated (OtherCallable wrapper)) \<and>
      wrapper ([], []) () = (Inl c, ()) \<and>
      exc_type c = ''ChainedExceptionWithTraceback'' \<and>
      map_of (exc_dict c) ''exc'' = Some (VException (KeyError ''missing'')) \<and>
      map_of (exc_dict c) ''tb'' =
        Some (VStr (CHR 0x0A # CHR 0x22 # CHR 0x22 # CHR 0x22 # CHR 0x0A #
                ''KeyError'' @ [CHR 0x22, CHR 0x22, CHR 0x22]))) \<and>
   read_attribute recorder_own_names example_fmt
     [''obj'' \<mapsto> (Attribute (VInt 1) :: unit attr)] ''obj'' = Inr (OwnAttribute ''obj'')"
proof -
  let ?obj = "example_resource (BoundMethod example_failing)"
  let ?other = "[''obj'' \<mapsto> (Attribute (VInt 1) :: unit attr)]"
  have name: "?obj ''name'' = Some (Attribute (VStr ''db''))"
    and get: "?obj ''get'' = Some (BoundMethod example_failing)"
    and own: "?other ''obj'' = Some (Attribute (VInt 1))"
    by (simp_all add: example_resource_def)
  have names: "''name'' \<notin> set recorder_own_names" "''get'' \<notin> set recorder_own_names"
    "''obj'' \<in> set recorder_own_names"
    by (simp_all add: recorder_own_names_def)
  have plain: "\<not> inspect_ismethod (Attribute (VStr ''db'') :: unit attr)"
    and meth: "inspect_ismethod (BoundMethod example_failing)"
    by (simp_all add: inspect_ismethod_def)
  have raised: "call_attr (BoundMethod example_failing) ([], []) () =
      (Inl (KeyError ''missing''), ())"
    by (simp add: call_attr_def example_failing_def)
  have trace: "concat (example_fmt (KeyError ''missing'') (exc_traceback (KeyError ''missing''))) =
      ''KeyError''"
    by (simp add: KeyError_def new_exception_def example_fmt_def)
  from read_attribute_through_recorder
    [where obj = "?obj" and name = "''name''" and a = "Attribute (VStr ''db'')"
       and fmt = example_fmt and own = recorder_own_names] name names plain
  have a: "read_attribute recorder_own_names example_fmt ?obj ''name'' =
      Inr (Delegated (Attribute (VStr ''db'')))"
    by blast
  from read_attribute_through_recorder
    [where obj = "?other" and name = "''obj''" and a = "Attribute (VInt 1)"
       and fmt = example_fmt and own = recorder_own_names] own names
  have b: "read_attribute recorder_own_names example_fmt ?other ''obj'' =
      Inr (OwnAttribute ''obj'')"
    by blast
  from read_attribute_through_recorder
    [where obj = "?obj" and name = "''get''" and a = "BoundMethod example_failing"
       and fmt = example_fmt and own = recorder_own_names] get names meth
  obtain wrapper where w: "read_attribute recorder_own_names example_fmt ?obj ''get'' =
        Inr (Delegated (OtherCallable wrapper))"
    and r: "\<forall>args s e s'. call_attr (BoundMethod example_failing) args s = (Inl e, s') \<and>
        isinstance e ''Exception'' \<longrightarrow>
        (\<exists>c. wrapper args s = (Inl c, s') \<and> exc_type c = ''ChainedExceptionWithTraceback'' \<and>
             map_of (exc_dict c) ''exc'' = Some (VException e) \<and>
             map_of (exc_dict c) ''tb'' =
               Some (VStr (CHR 0x0A # CHR 0x22 # CHR 0x22 # CHR 0x22 # CHR 0x0A #
                       concat (example_fmt e (exc_traceback e)) @
                       [CHR 0x22, CHR 0x22, CHR 0x22])))"
    by blast
  from r raised KeyError_plain(1) obtain c where "wrapper ([], []) () = (Inl c, ())"
    and "exc_type c = ''ChainedExceptionWithTraceback''"
    and "map_of (exc_dict c) ''exc'' = Some (VException (KeyError ''missing''))"
    and "map_of (exc_dict c) ''tb'' =
      Some (VStr (CHR 0x0A # CHR 0x22 # CHR 0x22 # CHR 0x22 # CHR 0x0A #
              concat (example_fmt (KeyError ''missing'') (exc_traceback (KeyError ''missing''))) @
              [CHR 0x22, CHR 0x22, CHR 0x22]))"
    by blast
  with a b w show ?thesis unfolding trace by blast
qed

text \<open>
  The claim as it was stated fails on a callable attribute that is not a bound method:
  it is callable, the adapter returns it as it is, and calling what was returned raises
  the original \<^verbatim>\<open>KeyError\<close>, an instance of \<^verbatim>\<open>Exception\<close>, with no container
  around it. It fails as well on the name \<^verbatim>\<open>obj\<close>: a non-callable attribute of that
  name on the resource is not what the read returns.
\<close>

theorem read_attribute_counterexample:
  "callable (OtherCallable example_failing) \<and>
   read_attribute recorder_own_names example_fmt
     (example_resource (OtherCallable example_failing)) ''get'' =
     Inr (Delegated (OtherCallable example_failing)) \<and>
   call_attr (OtherCallable example_failing) ([], []) () = (Inl (KeyError ''missing''), ()) \<and>
   isinstance (KeyError ''missing'') ''Exception'' \<and>
   exc_type (KeyError ''missing'') \<noteq> ''ChainedExceptionWithTraceback'' \<and>
   \<not> callable (Attribute (VInt 1) :: unit attr) \<and>
   read_attribute recorder_own_names example_fmt
     [''obj'' \<mapsto> (Attribute (VInt 1) :: unit attr)] ''obj'' \<noteq>
     Inr (Delegated (Attribute (VInt 1)))"
  by (simp add: callable_def inspect_ismethod_def read_attribute_def
        TracebackRecorder_getattr_def recorder_own_names_def
        example_resource_def call_attr_def example_failing_def KeyError_def new_exception_def
        isinstance_def Exception_bases_def)

text \<open>
  Claim C10, as amended. \<^verbatim>\<open>rebuild_exc\<close> returns the very exception object it is
  given (on a store: the same reference, the object updated in place, nothing else
  touched), with \<^verbatim>\<open>__cause__\<close> set to the \<^verbatim>\<open>RemoteTraceback\<close> marker and, as
  with every assignment to \<^verbatim>\<open>__cause__\<close>, \<^verbatim>\<open>__suppress_context__\<close> set to true;
  its class, its \<^verbatim>\<open>args\<close>, its payload attributes, \<^verbatim>\<open>__context__\<close> and
  \<^verbatim>\<open>__traceback__\<close> are unchanged. So the exception that reaches the caller on the
  other side is the copy that \<^verbatim>\<open>pickle\<close> delivered of the embedded exception
  (when that is not itself a container and its round trip succeeds), changed in those
  two attributes only: every attribute \<^verbatim>\<open>pickle\<close> carried across is preserved.
\<close>

theorem rebuild_exc_frame:
  "exc_cause (rebuild_exc exc tb) =
     Some (Exn ''RemoteTraceback'' [''Exception'', ''BaseException'', ''object'']
             [VStr tb] [(''tb'', VStr tb)] None None False None) \<and>
   exc_suppress_context (rebuild_exc exc tb) = True \<and>
   exc_type (rebuild_exc exc tb) = exc_type exc \<and>
   exc_bases (rebuild_exc exc tb) = exc_bases exc \<and>
   exc_args (rebuild_exc exc tb) = exc_args exc \<and>
   exc_dict (rebuild_exc exc tb) = exc_dict exc \<and>
   exc_context (rebuild_exc exc tb) = exc_context exc \<and>
   exc_traceback (rebuild_exc exc tb) = exc_traceback exc \<and>
   rebuild_exc_ref (h(r \<mapsto> exc)) r tb = Some (h(r \<mapsto> rebuild_exc exc tb), r) \<and>
   (\<forall>e e'. \<not> isinstance e ''ChainedExceptionWithTraceback'' \<and> foreign e = Inr e' \<longrightarrow>
      loads_dumps foreign (ChainedExceptionWithTraceback fmt e t) =
        Inr (rebuild_exc e'
              (CHR 0x0A # CHR 0x22 # CHR 0x22 # CHR 0x22 # CHR 0x0A #
                 concat (fmt e t) @ [CHR 0x22, CHR 0x22, CHR 0x22])))"
  by (simp add: rebuild_exc_def assign_cause_def rebuild_exc_ref_def RemoteTraceback_def
        Exception_bases_def loads_dumps_container loads_dumps_foreign)

text \<open>
  A \<^verbatim>\<open>KeyError\<close> with a payload attribute \<^verbatim>\<open>code\<close>: what arrives on the other
  side has the class, the \<^verbatim>\<open>args\<close> and the payload, and the two attributes set.
\<close>

theorem rebuild_exc_frame_witness:
  "\<exists>x. loads_dumps example_foreign
          (ChainedExceptionWithTraceback example_fmt
             (Exn ''KeyError'' (''LookupError'' # Exception_bases) [VStr ''missing'']
                [(''code'', VInt 7)] None None False None) None) = Inr x \<and>
        exc_type x = ''KeyError'' \<and> exc_args x = [VStr ''missing''] \<and>
        exc_dict x = [(''code'', VInt 7)] \<and> exc_suppress_context x = True \<and>
        exc_cause x =
          Some (Exn ''RemoteTraceback'' [''Exception'', ''BaseException'', ''object'']
                  [VStr (CHR 0x0A # CHR 0x22 # CHR 0x22 # CHR 0x22 # CHR 0x0A #
                           ''KeyError'' @ [CHR 0x22, CHR 0x22, CHR 0x22])]
                  [(''tb'', VStr (CHR 0x0A # CHR 0x22 # CHR 0x22 # CHR 0x22 # CHR 0x0A #
                           ''KeyError'' @ [CHR 0x22, CHR 0x22, CHR 0x22]))]
                  None None False None)"
proof -
  let ?e = "Exn ''KeyError'' (''LookupError'' # Exception_bases) [VStr ''missing'']
      [(''code'', VInt 7)] None None False None"
  let ?t = "CHR 0x0A # CHR 0x22 # CHR 0x22 # CHR 0x22 # CHR 0x0A #
      ''KeyError'' @ [CHR 0x22, CHR 0x22, CHR 0x22]"
  have plain: "\<not> isinstance ?e ''ChainedExceptionWithTraceback''"
    by (simp add: isinstance_def Exception_bases_def)
  have copy: "example_foreign ?e = Inr ?e"
    by (simp add: example_foreign_def)
  have trace: "concat (example_fmt ?e None) = ''KeyError''"
    by (simp add: example_fmt_def)
  note frame = rebuild_exc_frame
    [where exc = "?e" and tb = "?t" and h = Map.empty and r = 0 and foreign = example_foreign
       and fmt = example_fmt and t = None]
  have cause: "exc_cause (rebuild_exc ?e ?t) =
      Some (Exn ''RemoteTraceback'' [''Exception'', ''BaseException'', ''object'']
              [VStr ?t] [(''tb'', VStr ?t)] None None False None)"
    by (rule frame [THEN conjunct1])
  have flag: "exc_suppress_context (rebuild_exc ?e ?t) = True"
    by (rule frame [THEN conjunct2, THEN conjunct1])
  have kind: "exc_type (rebuild_exc ?e ?t) = exc_type ?e"
    by (rule frame [THEN conjunct2, THEN conjunct2, THEN conjunct1])
  have args: "exc_args (rebuild_exc ?e ?t) = exc_args ?e"
    by (rule frame [THEN conjunct2, THEN conjunct2, THEN conjunct2, THEN conjunct2,
          THEN conjunct1])
  have payload: "exc_dict (rebuild_exc ?e ?t) = exc_dict ?e"
    by (rule frame [THEN conjunct2, THEN conjunct2, THEN conjunct2, THEN conjunct2,
          THEN conjunct2, THEN conjunct1])
  have boundary: "\<forall>e e'. \<not> isinstance e ''ChainedExceptionWithTraceback'' \<and>
        example_foreign e = Inr e' \<longrightarrow>
        loads_dumps example_foreign (ChainedExceptionWithTraceback example_fmt e None) =
          Inr (rebuild_exc e'
                (CHR 0x0A # CHR 0x22 # CHR 0x22 # CHR 0x22 # CHR 0x0A #
                   concat (example_fmt e None) @ [CHR 0x22, CHR 0x22, CHR 0x22]))"
    by (rule frame [THEN conjunct2, THEN conjunct2, THEN conjunct2, THEN conjunct2,
          THEN conjunct2, THEN conjunct2, THEN conjunct2, THEN conjunct2, THEN conjunct2])
  from boundary plain copy
  have "loads_dumps example_foreign (ChainedExceptionWithTraceback example_fmt ?e None) =
      Inr (rebuild_exc ?e
            (CHR 0x0A # CHR 0x22 # CHR 0x22 # CHR 0x22 # CHR 0x0A #
               concat (example_fmt ?e None) @ [CHR 0x22, CHR 0x22, CHR 0x22]))"
    by blast
  then have arrived: "loads_dumps example_foreign
      (ChainedExceptionWithTraceback example_fmt ?e None) = Inr (rebuild_exc ?e ?t)"
    unfolding trace .
  from kind args payload have "exc_type (rebuild_exc ?e ?t) = ''KeyError''"
    and "exc_args (rebuild_exc ?e ?t) = [VStr ''missing'']"
    and "exc_dict (rebuild_exc ?e ?t) = [(''code'', VInt 7)]"
    by simp_all
  with arrived flag cause show ?thesis by blast
qed

text \<open>
  The claim as it was stated fails on an exception whose \<^verbatim>\<open>__suppress_context__\<close>
  is false, as it is on every freshly raised one: the attribute is true afterwards, so
  the cause is not the only attribute that changes.
\<close>

theorem rebuild_exc_counterexample:
  "exc_suppress_context (rebuild_exc (KeyError ''missing'') ''remote trace'') \<noteq>
     exc_suppress_context (KeyError ''missing'')"
  by (simp add: rebuild_exc_def assign_cause_def KeyError_def new_exception_def)

end
